theory Spec2Isabelle
  imports Complex_Main "HOL-Library.Char_ord" "HOL-Library.List_Lexorder"
begin

section \<open>Python values used by bot.py\<close>

subsection \<open>Decimal\<close>

text \<open>
  A finite \<^verbatim>\<open>decimal.Decimal\<close> is the triple Python keeps: the sign (\<open>True\<close> is
  negative), the coefficient and the exponent; its value is
  \<open>(-1)^sign * coefficient * 10^exponent\<close>.  The \<^verbatim>\<open>TEXT\<close> columns \<^verbatim>\<open>points\<close> and
  \<^verbatim>\<open>amount\<close> hold \<^verbatim>\<open>str(d)\<close> and are read back with \<^verbatim>\<open>Decimal(text)\<close>, which gives
  the same triple, so the rows below hold the triple itself.  Arithmetic follows the
  default context of the module: 28 significant digits, rounding half to even.  The
  exponent limits of the context (\<open>Emax = 999999\<close>) are not modelled.
\<close>

datatype decimal = Decimal (dsign: bool) (dint: nat) (dexp: int)

definition prec :: nat where
  "prec = 28"

definition digit_char :: "nat \<Rightarrow> char" where
  "digit_char n = ''0123456789'' ! n"

fun str_nat :: "nat \<Rightarrow> string" where
  "str_nat n = (if n < 10 then [digit_char n] else str_nat (n div 10) @ [digit_char (n mod 10)])"

declare str_nat.simps [simp del]

definition ndigits :: "nat \<Rightarrow> nat" where
  "ndigits n = length (str_nat n)"

definition signed :: "decimal \<Rightarrow> int" where
  "signed d = (if dsign d then - int (dint d) else int (dint d))"

text \<open>The signed coefficient of \<open>d\<close> written at the exponent \<open>e \<le> dexp d\<close>.\<close>

definition scaled :: "int \<Rightarrow> decimal \<Rightarrow> int" where
  "scaled e d = signed d * 10 ^ nat (dexp d - e)"

definition dec_val :: "decimal \<Rightarrow> rat" where
  "dec_val d = of_int (signed d) * 10 powi dexp d"

text \<open>\<^verbatim>\<open>a < b\<close> on finite decimals compares the values; it never rounds.\<close>

definition dec_less :: "decimal \<Rightarrow> decimal \<Rightarrow> bool" where
  "dec_less a b = (let e = min (dexp a) (dexp b) in scaled e a < scaled e b)"

text \<open>\<open>c / 10^k\<close> rounded to an integer, ties to the even neighbour.\<close>

definition round_half_even :: "nat \<Rightarrow> nat \<Rightarrow> nat" where
  "round_half_even c k =
     (let q = c div 10 ^ k; r = c mod 10 ^ k
      in if 2 * r > 10 ^ k \<or> (2 * r = 10 ^ k \<and> odd q) then q + 1 else q)"

text \<open>The context's rounding of a result to \<open>prec\<close> digits (\<^verbatim>\<open>Decimal._fix\<close>).\<close>

definition dec_fix :: "decimal \<Rightarrow> decimal" where
  "dec_fix d =
     (let n = ndigits (dint d)
      in if n \<le> prec then d
         else let k = n - prec; q = round_half_even (dint d) k
              in if q = 10 ^ prec then Decimal (dsign d) (q div 10) (dexp d + int k + 1)
                 else Decimal (dsign d) q (dexp d + int k))"

text \<open>
  \<^verbatim>\<open>a + b\<close>: the exact sum at the smaller exponent, then rounded.  A zero sum is
  negative only when both operands are.
\<close>

definition dec_add :: "decimal \<Rightarrow> decimal \<Rightarrow> decimal" where
  "dec_add a b =
     (let e = min (dexp a) (dexp b);
          s = scaled e a + scaled e b;
          sg = (if s = 0 then dsign a \<and> dsign b else s < 0)
      in dec_fix (Decimal sg (nat \<bar>s\<bar>) e))"

definition dec_neg :: "decimal \<Rightarrow> decimal" where
  "dec_neg a = Decimal (\<not> dsign a) (dint a) (dexp a)"

text \<open>\<^verbatim>\<open>a - b\<close> is \<^verbatim>\<open>a.__add__(b.copy_negate())\<close>.\<close>

definition dec_sub :: "decimal \<Rightarrow> decimal \<Rightarrow> decimal" where
  "dec_sub a b = dec_add a (dec_neg b)"

text \<open>\<^verbatim>\<open>Decimal("0")\<close>, \<^verbatim>\<open>Decimal("3")\<close> and \<^verbatim>\<open>Decimal("10000")\<close>.\<close>

definition dec_of_nat :: "nat \<Rightarrow> decimal" where
  "dec_of_nat n = Decimal False n 0"

subsection \<open>JSON and payload values\<close>

text \<open>
  The values \<^verbatim>\<open>r.json()\<close> returns and the values of a request payload.  A string is the
  list of the bytes of its UTF-8 encoding; a dict is the list of its items in insertion
  order, and a lookup takes the first item with the key.  Floating point numbers are not
  modelled.
\<close>

datatype pyval = PNone | PBool bool | PInt int | PStr string | PList "pyval list"
  | PDict "(string \<times> pyval) list"

definition str_int :: "int \<Rightarrow> string" where
  "str_int i = (if i < 0 then CHR ''-'' # str_nat (nat (- i)) else str_nat (nat i))"

fun join :: "string \<Rightarrow> string list \<Rightarrow> string" where
  "join sep [] = []"
| "join sep [x] = x"
| "join sep (x # y # ys) = x @ sep @ join sep (y # ys)"

definition hex_lower :: "nat \<Rightarrow> char" where
  "hex_lower n = ''0123456789abcdef'' ! n"

text \<open>
  \<^verbatim>\<open>repr\<close> of a string: the quote is \<^verbatim>\<open>'\<close> unless the string holds one and no \<^verbatim>\<open>"\<close>;
  backslash, the quote, tab, newline, carriage return and the other ASCII control
  characters are escaped.  Bytes above 127 are kept (Python escapes the code points it
  does not consider printable).
\<close>

definition repr_char :: "char \<Rightarrow> char \<Rightarrow> string" where
  "repr_char q c =
     (if c = CHR 0x5C then [CHR 0x5C, CHR 0x5C]
      else if c = q then [CHR 0x5C, q]
      else if c = CHR 0x09 then [CHR 0x5C, CHR ''t'']
      else if c = CHR 0x0A then [CHR 0x5C, CHR ''n'']
      else if c = CHR 0x0D then [CHR 0x5C, CHR ''r'']
      else if (of_char c :: nat) < 32 \<or> c = CHR 0x7F
        then [CHR 0x5C, CHR ''x'', hex_lower (of_char c div 16), hex_lower (of_char c mod 16)]
      else [c])"

definition repr_str :: "string \<Rightarrow> string" where
  "repr_str s =
     (let q = (if CHR 0x27 \<in> set s \<and> CHR 0x22 \<notin> set s then CHR 0x22 else CHR 0x27)
      in [q] @ concat (map (repr_char q) s) @ [q])"

text \<open>\<open>py_fmt False\<close> is \<^verbatim>\<open>str\<close> and \<open>py_fmt True\<close> is \<^verbatim>\<open>repr\<close>.\<close>

fun py_fmt :: "bool \<Rightarrow> pyval \<Rightarrow> string" where
  "py_fmt r PNone = ''None''"
| "py_fmt r (PBool b) = (if b then ''True'' else ''False'')"
| "py_fmt r (PInt i) = str_int i"
| "py_fmt r (PStr s) = (if r then repr_str s else s)"
| "py_fmt r (PList xs) = ''['' @ join '', '' (map (py_fmt True) xs) @ '']''"
| "py_fmt r (PDict kvs) =
     ''{'' @ join '', '' (map (\<lambda>kv. repr_str (fst kv) @ '': '' @ py_fmt True (snd kv)) kvs) @ ''}''"

abbreviation py_str :: "pyval \<Rightarrow> string" where
  "py_str \<equiv> py_fmt False"

text \<open>
  \<^verbatim>\<open>str.lower()\<close>: the ASCII capitals, and U+212A KELVIN SIGN (bytes E2 84 AA), the one
  code point outside ASCII whose lower case is an ASCII letter.  The other case mappings
  of Unicode give text outside ASCII and are left as they are; every word the program
  compares a lowered string with is ASCII.
\<close>

definition lower_char :: "char \<Rightarrow> char" where
  "lower_char c =
     (case map_of (zip ''ABCDEFGHIJKLMNOPQRSTUVWXYZ'' ''abcdefghijklmnopqrstuvwxyz'') c of
        None \<Rightarrow> c | Some l \<Rightarrow> l)"

fun lower :: "string \<Rightarrow> string" where
  "lower (a # b # c # cs) =
     (if a = CHR 0xE2 \<and> b = CHR 0x84 \<and> c = CHR 0xAA then CHR ''k'' # lower cs
      else lower_char a # lower (b # c # cs))"
| "lower cs = map lower_char cs"

text \<open>\<^verbatim>\<open>bool(x)\<close>.\<close>

fun py_truthy :: "pyval \<Rightarrow> bool" where
  "py_truthy PNone = False"
| "py_truthy (PBool b) = b"
| "py_truthy (PInt i) = (i \<noteq> 0)"
| "py_truthy (PStr s) = (s \<noteq> [])"
| "py_truthy (PList xs) = (xs \<noteq> [])"
| "py_truthy (PDict kvs) = (kvs \<noteq> [])"

text \<open>\<^verbatim>\<open>x or y\<close>.\<close>

definition py_or :: "pyval \<Rightarrow> pyval \<Rightarrow> pyval" where
  "py_or x y = (if py_truthy x then x else y)"

text \<open>\<^verbatim>\<open>x == n\<close> for an \<^verbatim>\<open>int\<close> literal \<open>n\<close>: \<^verbatim>\<open>bool\<close> is a subtype of \<^verbatim>\<open>int\<close>, \<^verbatim>\<open>False == 0\<close>.\<close>

fun py_eq_int :: "pyval \<Rightarrow> int \<Rightarrow> bool" where
  "py_eq_int (PInt i) n = (i = n)"
| "py_eq_int (PBool b) n = ((if b then 1 else 0) = n)"
| "py_eq_int _ n = False"

text \<open>\<^verbatim>\<open>d.get(key, default)\<close>; \<^verbatim>\<open>d.get(key)\<close> has the default \<^verbatim>\<open>None\<close>.\<close>

definition dict_get :: "(string \<times> pyval) list \<Rightarrow> string \<Rightarrow> pyval \<Rightarrow> pyval" where
  "dict_get kvs key dflt = (case map_of kvs key of None \<Rightarrow> dflt | Some v \<Rightarrow> v)"

text \<open>\<^verbatim>\<open>needle in text\<close> on strings.\<close>

fun starts_with :: "string \<Rightarrow> string \<Rightarrow> bool" where
  "starts_with [] ys = True"
| "starts_with (x # xs) [] = False"
| "starts_with (x # xs) (y # ys) = (x = y \<and> starts_with xs ys)"

fun contains :: "string \<Rightarrow> string \<Rightarrow> bool" where
  "contains needle [] = (needle = [])"
| "contains needle (c # cs) = (starts_with needle (c # cs) \<or> contains needle cs)"

section \<open>The database\<close>

text \<open>
  The two tables of \<^verbatim>\<open>init_db\<close>, each a map from its primary key to the other
  columns.  \<^verbatim>\<open>status\<close> and \<^verbatim>\<open>credited\<close> are \<^verbatim>\<open>INTEGER\<close> columns (0 or 1 in every
  row the program writes); \<^verbatim>\<open>paid_at\<close> is \<^verbatim>\<open>NULL\<close> until the order is credited.
\<close>

record user_row =
  username :: string
  full_name :: string
  points :: decimal
  u_created_at :: int

record order_row =
  user_id :: int
  amount :: decimal
  coin :: string
  order_id :: string
  pay_url :: string
  status :: int
  credited :: int
  created_at :: int
  paid_at :: "int option"

record db =
  users :: "int \<rightharpoonup> user_row"
  orders :: "string \<rightharpoonup> order_row"

definition init_db :: db where
  "init_db = \<lparr>users = Map.empty, orders = Map.empty\<rparr>"

text \<open>A Telegram user as the handlers read it; the optional fields are already \<^verbatim>\<open>x or ""\<close>.\<close>

record tg_user =
  tg_id :: int
  tg_username :: string
  tg_full_name :: string

datatype exn = IntegrityError | RuntimeError | InvalidOperation

text \<open>\<^verbatim>\<open>INSERT OR IGNORE\<close> followed by the \<^verbatim>\<open>UPDATE\<close> of the two name columns.\<close>

definition ensure_user :: "tg_user \<Rightarrow> int \<Rightarrow> db \<Rightarrow> db" where
  "ensure_user user now d =
     (let r = (case users d (tg_id user) of
                 None \<Rightarrow> \<lparr>username = tg_username user, full_name = tg_full_name user,
                           points = dec_of_nat 0, u_created_at = now\<rparr>
               | Some r0 \<Rightarrow> r0)
      in d\<lparr>users := (users d)(tg_id user \<mapsto>
              r\<lparr>username := tg_username user, full_name := tg_full_name user\<rparr>)\<rparr>)"

definition get_points :: "db \<Rightarrow> int \<Rightarrow> decimal" where
  "get_points d uid = (case users d uid of None \<Rightarrow> dec_of_nat 0 | Some r \<Rightarrow> points r)"

text \<open>\<^verbatim>\<open>UPDATE users SET points=? WHERE user_id=?\<close>: a missing row matches nothing.\<close>

definition update_points :: "int \<Rightarrow> decimal \<Rightarrow> db \<Rightarrow> db" where
  "update_points uid p d =
     (case users d uid of
        None \<Rightarrow> d
      | Some r \<Rightarrow> d\<lparr>users := (users d)(uid \<mapsto> r\<lparr>points := p\<rparr>)\<rparr>)"

text \<open>
  One \<^verbatim>\<open>BEGIN IMMEDIATE\<close> transaction: the function maps the database before it to
  the database after it and the returned flag.  \<^verbatim>\<open>ROLLBACK\<close> returns the database
  unchanged.
\<close>

definition deduct_points_if_enough :: "int \<Rightarrow> decimal \<Rightarrow> db \<Rightarrow> bool \<times> db" where
  "deduct_points_if_enough uid amt d =
     (let current = (case users d uid of None \<Rightarrow> dec_of_nat 0 | Some r \<Rightarrow> points r)
      in if dec_less current amt then (False, d)
         else let new_points = dec_sub current amt
              in (True, update_points uid new_points d))"

text \<open>The \<^verbatim>\<open>INSERT\<close> raises \<^verbatim>\<open>IntegrityError\<close> when the primary key is taken.\<close>

definition create_order ::
  "string \<Rightarrow> int \<Rightarrow> decimal \<Rightarrow> string \<Rightarrow> string \<Rightarrow> int \<Rightarrow> db \<Rightarrow> exn + db" where
  "create_order unique_id uid amt oid url now d =
     (if unique_id \<in> dom (orders d) then Inl IntegrityError
      else Inr (d\<lparr>orders := (orders d)(unique_id \<mapsto>
              \<lparr>user_id = uid, amount = amt, coin = ''USDT'', order_id = oid, pay_url = url,
               status = 0, credited = 0, created_at = now, paid_at = None\<rparr>)\<rparr>))"

definition get_order :: "db \<Rightarrow> string \<Rightarrow> order_row option" where
  "get_order d unique_id = orders d unique_id"

text \<open>
  The three texts \<^verbatim>\<open>mark_order_paid_and_credit\<close> returns: the order does not exist;
  the order is already credited, nothing to repeat; top-up succeeded, with the amount.
\<close>

datatype credit_msg = MsgNoOrder | MsgAlreadyCredited | MsgCredited decimal

definition mark_order_paid_and_credit :: "string \<Rightarrow> int \<Rightarrow> db \<Rightarrow> (bool \<times> credit_msg) \<times> db" where
  "mark_order_paid_and_credit unique_id now d =
     (case orders d unique_id of
        None \<Rightarrow> ((False, MsgNoOrder), d)
      | Some row \<Rightarrow>
          if credited row = 1 then ((True, MsgAlreadyCredited), d)
          else
            let d1 = d\<lparr>orders := (orders d)(unique_id \<mapsto>
                        row\<lparr>status := 1, credited := 1, paid_at := Some now\<rparr>)\<rparr>;
                current = (case users d1 (user_id row) of
                             None \<Rightarrow> dec_of_nat 0 | Some u \<Rightarrow> points u);
                new_points = dec_add current (amount row)
            in ((True, MsgCredited (amount row)), update_points (user_id row) new_points d1))"

section \<open>The gateway signer\<close>

subsection \<open>MD5\<close>

text \<open>
  \<^verbatim>\<open>hashlib.md5(data).hexdigest()\<close> (RFC 1321) on a list of bytes.  The 32-bit words are
  natural numbers below \<open>2^32\<close>; every sum is reduced modulo \<open>2^32\<close>.
\<close>

unbundle bit_operations_syntax

definition u32 :: "nat \<Rightarrow> nat" where
  "u32 x = x mod 4294967296"

definition not32 :: "nat \<Rightarrow> nat" where
  "not32 x = 4294967295 - x"

definition rotl32 :: "nat \<Rightarrow> nat \<Rightarrow> nat" where
  "rotl32 x n = u32 (x * 2 ^ n) + x div 2 ^ (32 - n)"

definition md5_K :: "nat list" where
  "md5_K =
    [0xd76aa478, 0xe8c7b756, 0x242070db, 0xc1bdceee, 0xf57c0faf, 0x4787c62a, 0xa8304613, 0xfd469501,
     0x698098d8, 0x8b44f7af, 0xffff5bb1, 0x895cd7be, 0x6b901122, 0xfd987193, 0xa679438e, 0x49b40821,
     0xf61e2562, 0xc040b340, 0x265e5a51, 0xe9b6c7aa, 0xd62f105d, 0x02441453, 0xd8a1e681, 0xe7d3fbc8,
     0x21e1cde6, 0xc33707d6, 0xf4d50d87, 0x455a14ed, 0xa9e3e905, 0xfcefa3f8, 0x676f02d9, 0x8d2a4c8a,
     0xfffa3942, 0x8771f681, 0x6d9d6122, 0xfde5380c, 0xa4beea44, 0x4bdecfa9, 0xf6bb4b60, 0xbebfbc70,
     0x289b7ec6, 0xeaa127fa, 0xd4ef3085, 0x04881d05, 0xd9d4d039, 0xe6db99e5, 0x1fa27cf8, 0xc4ac5665,
     0xf4292244, 0x432aff97, 0xab9423a7, 0xfc93a039, 0x655b59c3, 0x8f0ccc92, 0xffeff47d, 0x85845dd1,
     0x6fa87e4f, 0xfe2ce6e0, 0xa3014314, 0x4e0811a1, 0xf7537e82, 0xbd3af235, 0x2ad7d2bb, 0xeb86d391]"

definition md5_S :: "nat list" where
  "md5_S =
    [7, 12, 17, 22, 7, 12, 17, 22, 7, 12, 17, 22, 7, 12, 17, 22,
     5, 9, 14, 20, 5, 9, 14, 20, 5, 9, 14, 20, 5, 9, 14, 20,
     4, 11, 16, 23, 4, 11, 16, 23, 4, 11, 16, 23, 4, 11, 16, 23,
     6, 10, 15, 21, 6, 10, 15, 21, 6, 10, 15, 21, 6, 10, 15, 21]"

definition md5_f :: "nat \<Rightarrow> nat \<Rightarrow> nat \<Rightarrow> nat \<Rightarrow> nat" where
  "md5_f i b c d =
     (if i < 16 then (b AND c) OR (not32 b AND d)
      else if i < 32 then (d AND b) OR (not32 d AND c)
      else if i < 48 then b XOR c XOR d
      else c XOR (b OR not32 d))"

definition md5_g :: "nat \<Rightarrow> nat" where
  "md5_g i =
     (if i < 16 then i
      else if i < 32 then (5 * i + 1) mod 16
      else if i < 48 then (3 * i + 5) mod 16
      else (7 * i) mod 16)"

type_synonym md5_state = "nat \<times> nat \<times> nat \<times> nat"

definition md5_round :: "nat list \<Rightarrow> md5_state \<Rightarrow> nat \<Rightarrow> md5_state" where
  "md5_round m st i =
     (case st of (a, b, c, d) \<Rightarrow>
        let f = u32 (md5_f i b c d + a + md5_K ! i + m ! md5_g i)
        in (d, u32 (b + rotl32 f (md5_S ! i)), b, c))"

definition md5_block :: "md5_state \<Rightarrow> nat list \<Rightarrow> md5_state" where
  "md5_block st m =
     (case (st, foldl (md5_round m) st [0..<64]) of
        ((a0, b0, c0, d0), (a, b, c, d)) \<Rightarrow> (u32 (a0 + a), u32 (b0 + b), u32 (c0 + c), u32 (d0 + d)))"

text \<open>Little-endian bytes of a number, and back.\<close>

definition le_bytes :: "nat \<Rightarrow> nat \<Rightarrow> nat list" where
  "le_bytes n x = map (\<lambda>i. (x div 256 ^ i) mod 256) [0..<n]"

definition le_word :: "nat list \<Rightarrow> nat" where
  "le_word bs = foldr (\<lambda>b acc. b + 256 * acc) bs 0"

function chunks :: "nat \<Rightarrow> 'a list \<Rightarrow> 'a list list" where
  "chunks n xs = (if n = 0 \<or> xs = [] then [] else take n xs # chunks n (drop n xs))"
  by pat_completeness auto
termination
  by (relation "measure (\<lambda>(n, xs). length xs)") auto

declare chunks.simps [simp del]

definition md5_pad :: "nat list \<Rightarrow> nat list" where
  "md5_pad bs =
     bs @ [128] @ replicate ((119 - length bs mod 64) mod 64) 0 @ le_bytes 8 (8 * length bs)"

definition md5_digest :: "nat list \<Rightarrow> nat list" where
  "md5_digest bs =
     (case foldl md5_block (0x67452301, 0xefcdab89, 0x98badcfe, 0x10325476)
             (chunks 16 (map le_word (chunks 4 (md5_pad bs)))) of
        (a, b, c, d) \<Rightarrow> le_bytes 4 a @ le_bytes 4 b @ le_bytes 4 c @ le_bytes 4 d)"

definition md5_hexdigest :: "string \<Rightarrow> string" where
  "md5_hexdigest s =
     concat (map (\<lambda>b. [hex_lower (b div 16), hex_lower (b mod 16)]) (md5_digest (map of_char s)))"

subsection \<open>urllib.parse\<close>

text \<open>
  \<^verbatim>\<open>quote_plus\<close> works on the UTF-8 bytes of its argument: the unreserved characters
  stay, the space becomes \<^verbatim>\<open>+\<close>, every other byte becomes \<^verbatim>\<open>%XX\<close> in capitals.
\<close>

definition hex_upper :: "nat \<Rightarrow> char" where
  "hex_upper n = ''0123456789ABCDEF'' ! n"

definition always_safe :: "char \<Rightarrow> bool" where
  "always_safe c \<longleftrightarrow>
     c \<in> set ''ABCDEFGHIJKLMNOPQRSTUVWXYZabcdefghijklmnopqrstuvwxyz0123456789_.-~''"

definition quote_byte :: "char \<Rightarrow> string" where
  "quote_byte c =
     (if always_safe c then [c]
      else if c = CHR '' '' then ''+''
      else [CHR ''%'', hex_upper (of_char c div 16), hex_upper (of_char c mod 16)])"

definition quote_plus :: "string \<Rightarrow> string" where
  "quote_plus s = concat (map quote_byte s)"

text \<open>
  \<^verbatim>\<open>urlencode(items, doseq=True)\<close>: a string value gives one pair; a list gives one pair
  for each element and a dict one for each key (\<^verbatim>\<open>len(v)\<close> succeeds and the value is
  iterated); any other value gives the pair of its \<^verbatim>\<open>str\<close>.
\<close>

fun urlencode_item :: "string \<times> pyval \<Rightarrow> string list" where
  "urlencode_item (k, PStr s) = [quote_plus k @ ''='' @ quote_plus s]"
| "urlencode_item (k, PList xs) = map (\<lambda>elt. quote_plus k @ ''='' @ quote_plus (py_str elt)) xs"
| "urlencode_item (k, PDict kvs) = map (\<lambda>kv. quote_plus k @ ''='' @ quote_plus (fst kv)) kvs"
| "urlencode_item (k, v) = [quote_plus k @ ''='' @ quote_plus (py_str v)]"

definition urlencode :: "(string \<times> pyval) list \<Rightarrow> string" where
  "urlencode items = join ''&'' (concat (map urlencode_item items))"

text \<open>
  \<^verbatim>\<open>unquote\<close>: \<^verbatim>\<open>%\<close> followed by two hexadecimal digits is the byte they write; any
  other \<^verbatim>\<open>%\<close> stays.  The bytes are then decoded as UTF-8, and \<^verbatim>\<open>_sign_data\<close> encodes
  the result as UTF-8 again before hashing; on the encoded query of a payload, whose
  escapes spell the UTF-8 bytes of its strings, both steps are the identity.
\<close>

definition hex_val :: "char \<Rightarrow> nat option" where
  "hex_val c = map_of (zip ''0123456789abcdefABCDEF''
     [0, 1, 2, 3, 4, 5, 6, 7, 8, 9, 10, 11, 12, 13, 14, 15, 10, 11, 12, 13, 14, 15]) c"

definition byte_char :: "nat \<Rightarrow> nat \<Rightarrow> char" where
  "byte_char h l = Char (odd l) (odd (l div 2)) (odd (l div 4)) (odd (l div 8))
                        (odd h) (odd (h div 2)) (odd (h div 4)) (odd (h div 8))"

fun unquote :: "string \<Rightarrow> string" where
  "unquote (c # h # l # cs) =
     (if c = CHR ''%'' then
        (case (hex_val h, hex_val l) of
           (Some a, Some b) \<Rightarrow> byte_char a b # unquote cs
         | _ \<Rightarrow> c # unquote (h # l # cs))
      else c # unquote (h # l # cs))"
| "unquote cs = cs"

definition unquote_plus :: "string \<Rightarrow> string" where
  "unquote_plus s = unquote (map (\<lambda>c. if c = CHR ''+'' then CHR '' '' else c) s)"

subsection \<open>OkayPayClient\<close>

text \<open>
  The client after \<^verbatim>\<open>__init__\<close>.  \<^verbatim>\<open>config.py\<close> is not part of the sources, so the
  merchant id, the token and the two URLs of the configuration are fields of this record.
  A name of the source that starts with an underscore is written without it:
  \<^verbatim>\<open>_php_truthy\<close>, \<^verbatim>\<open>_sign_data\<close>, \<^verbatim>\<open>_is_auth_failed\<close>, \<^verbatim>\<open>_post\<close>,
  \<^verbatim>\<open>_extract_pay_result\<close> and \<^verbatim>\<open>_extract_paid_status\<close>.
\<close>

record client =
  merchant_id :: string
  token :: string
  base :: string
  return_url :: pyval
  callback_url :: pyval

text \<open>\<^verbatim>\<open>OkayPayClient._php_truthy\<close>, branch by branch.\<close>

fun php_truthy :: "pyval \<Rightarrow> bool" where
  "php_truthy PNone = False"
| "php_truthy (PBool b) = b"
| "php_truthy (PInt i) = (i \<noteq> 0)"
| "php_truthy (PStr s) = (s \<noteq> '''' \<and> s \<noteq> ''0'')"
| "php_truthy (PList xs) = (xs \<noteq> [])"
| "php_truthy (PDict kvs) = (kvs \<noteq> [])"

text \<open>\<^verbatim>\<open>d[key] = value\<close>: an existing key keeps its place, a new one goes last.\<close>

fun dict_set :: "(string \<times> pyval) list \<Rightarrow> string \<Rightarrow> pyval \<Rightarrow> (string \<times> pyval) list" where
  "dict_set [] key v = [(key, v)]"
| "dict_set ((k, w) # kvs) key v = (if k = key then (key, v) # kvs else (k, w) # dict_set kvs key v)"

definition upper_char :: "char \<Rightarrow> char" where
  "upper_char c =
     (case map_of (zip ''abcdefghijklmnopqrstuvwxyz'' ''ABCDEFGHIJKLMNOPQRSTUVWXYZ'') c of
        None \<Rightarrow> c | Some u \<Rightarrow> u)"

text \<open>A strategy is the pair \<open>(keep_zero, use_urldecode_plus)\<close>.\<close>

definition sign_src :: "client \<Rightarrow> (string \<times> pyval) list \<Rightarrow> bool \<Rightarrow> string" where
  "sign_src self sorted_items use_urldecode_plus =
     (let query = urlencode sorted_items;
          decoded = (if use_urldecode_plus then unquote_plus query else unquote query)
      in decoded @ ''&token='' @ token self)"

definition sign_data ::
  "client \<Rightarrow> (string \<times> pyval) list \<Rightarrow> bool \<Rightarrow> bool \<Rightarrow> (string \<times> pyval) list" where
  "sign_data self data keep_zero use_urldecode_plus =
     (let payload = dict_set data ''id'' (PStr (merchant_id self));
          filtered = (if keep_zero
                      then filter (\<lambda>kv. snd kv \<noteq> PNone \<and> snd kv \<noteq> PStr '''') payload
                      else filter (\<lambda>kv. php_truthy (snd kv)) payload);
          sorted_items = sort_key fst filtered;
          sign = map upper_char (md5_hexdigest (sign_src self sorted_items use_urldecode_plus));
          body = dict_set filtered ''sign'' (PStr sign)
      in body)"

section \<open>Normalising gateway responses\<close>

text \<open>
  The two markers \<^verbatim>\<open>_is_auth_failed\<close> looks for, as UTF-8 bytes: the six characters
  U+8EAB U+4EFD U+8BA4 U+8BC1 U+5931 U+8D25 (identity authentication failed) and the two
  characters U+8BA4 U+8BC1 (authentication).
\<close>

definition auth_failed_marker :: string where
  "auth_failed_marker = [CHR 0xE8, CHR 0xBA, CHR 0xAB, CHR 0xE4, CHR 0xBB, CHR 0xBD,
     CHR 0xE8, CHR 0xAE, CHR 0xA4, CHR 0xE8, CHR 0xAF, CHR 0x81,
     CHR 0xE5, CHR 0xA4, CHR 0xB1, CHR 0xE8, CHR 0xB4, CHR 0xA5]"

definition auth_marker :: string where
  "auth_marker = [CHR 0xE8, CHR 0xAE, CHR 0xA4, CHR 0xE8, CHR 0xAF, CHR 0x81]"

definition is_auth_failed :: "pyval \<Rightarrow> bool" where
  "is_auth_failed resp =
     (case resp of
        PDict kvs \<Rightarrow>
          let status = lower (py_str (dict_get kvs ''status'' (PStr '''')));
              msg = py_str (dict_get kvs ''msg'' (PStr '''')) @ py_str (dict_get kvs ''message'' (PStr ''''))
          in contains auth_failed_marker msg \<or>
             (status \<in> {''warning'', ''error''} \<and> contains auth_marker msg)
      | _ \<Rightarrow> False)"

text \<open>\<^verbatim>\<open>resp.get("data", {}) if isinstance(resp.get("data"), dict) else {}\<close>.\<close>

definition data_of :: "(string \<times> pyval) list \<Rightarrow> (string \<times> pyval) list" where
  "data_of kvs = (case dict_get kvs ''data'' PNone of PDict d \<Rightarrow> d | _ \<Rightarrow> [])"

definition extract_pay_result :: "pyval \<Rightarrow> bool \<times> string \<times> string" where
  "extract_pay_result resp =
     (case resp of
        PDict kvs \<Rightarrow>
          let code = dict_get kvs ''code'' PNone;
              status = lower (py_str (dict_get kvs ''status'' (PStr '''')));
              data = data_of kvs;
              oid = py_or (dict_get data ''order_id'' PNone)
                     (py_or (dict_get data ''orderId'' PNone)
                       (py_or (dict_get kvs ''order_id'' PNone)
                         (py_or (dict_get kvs ''orderId'' PNone) (PStr ''''))));
              url = py_or (dict_get data ''pay_url'' PNone)
                     (py_or (dict_get data ''payUrl'' PNone)
                       (py_or (dict_get data ''url'' PNone)
                         (py_or (dict_get data ''link'' PNone)
                           (py_or (dict_get kvs ''pay_url'' PNone)
                             (py_or (dict_get kvs ''payUrl'' PNone) (PStr ''''))))));
              ok_code = (py_eq_int code 10000 \<or> py_eq_int code 0 \<or> py_eq_int code 200);
              ok_status = (status \<in> {''success'', ''ok'', ''1'', ''true''});
              success = (py_truthy url \<and> (ok_code \<or> ok_status))
          in (success, py_str oid, py_str url)
      | _ \<Rightarrow> (False, '''', ''''))"

definition extract_paid_status :: "pyval \<Rightarrow> bool" where
  "extract_paid_status resp =
     (case resp of
        PDict kvs \<Rightarrow>
          let code = dict_get kvs ''code'' PNone;
              status = lower (py_str (dict_get kvs ''status'' (PStr '''')));
              data = data_of kvs;
              pay_status = dict_get data ''status'' (dict_get data ''pay_status'' (PInt 0));
              paid_flag = (py_str pay_status \<in> {''1'', ''true'', ''paid'', ''success''})
          in if (py_eq_int code 10000 \<or> py_eq_int code 0 \<or> py_eq_int code 200) \<and> paid_flag then True
             else if status \<in> {''success'', ''ok''} \<and> paid_flag then True
             else False
      | _ \<Rightarrow> False)"

subsection \<open>Requests\<close>

text \<open>
  What one \<^verbatim>\<open>client.post\<close> attempt comes to: an exception (a transport error, a timeout,
  \<^verbatim>\<open>raise_for_status\<close>, a body that is not JSON), or the parsed JSON value.  The gateway
  is outside the program: it is a function of the number of requests sent before this one,
  the URL and the signed body, so that it may answer the same request differently at
  different times.
\<close>

datatype attempt = Raises | Responds pyval

type_synonym gateway = "nat \<Rightarrow> string \<Rightarrow> (string \<times> pyval) list \<Rightarrow> attempt"

definition strategies :: "(bool \<times> bool) list" where
  "strategies = [(False, True), (True, True), (False, False), (True, False)]"

text \<open>
  The loop of \<^verbatim>\<open>_post\<close> over the strategies still to try; \<open>n\<close> counts the requests
  sent so far and \<open>last_resp\<close> starts as \<^verbatim>\<open>None\<close>.  The result is the returned value, or
  the \<^verbatim>\<open>RuntimeError\<close> raised after the loop, with the new count.
\<close>

fun post_loop ::
  "gateway \<Rightarrow> client \<Rightarrow> string \<Rightarrow> (string \<times> pyval) list \<Rightarrow> (bool \<times> bool) list \<Rightarrow> nat \<Rightarrow> pyval
     \<Rightarrow> (exn + pyval) \<times> nat" where
  "post_loop gw self url data [] n last_resp =
     (if last_resp \<noteq> PNone then (Inr last_resp, n) else (Inl RuntimeError, n))"
| "post_loop gw self url data (st # sts) n last_resp =
     (let body = sign_data self data (fst st) (snd st)
      in case gw n url body of
           Raises \<Rightarrow> post_loop gw self url data sts (n + 1) last_resp
         | Responds resp \<Rightarrow>
             if is_auth_failed resp then post_loop gw self url data sts (n + 1) resp
             else (Inr resp, n + 1))"

definition post ::
  "gateway \<Rightarrow> client \<Rightarrow> string \<Rightarrow> (string \<times> pyval) list \<Rightarrow> nat \<Rightarrow> (exn + pyval) \<times> nat" where
  "post gw self endpoint data n = post_loop gw self (base self @ endpoint) data strategies n PNone"

text \<open>\<^verbatim>\<open>str(d)\<close> of a finite Decimal (the scientific string of the decimal specification).\<close>

definition str_dec :: "decimal \<Rightarrow> string" where
  "str_dec d =
     (let ds = str_nat (dint d);
          leftdigits = dexp d + int (length ds);
          dotplace = (if dexp d \<le> 0 \<and> leftdigits > - 6 then leftdigits else 1);
          mantissa =
            (if dotplace \<le> 0 then ''0.'' @ replicate (nat (- dotplace)) CHR ''0'' @ ds
             else if dotplace \<ge> int (length ds)
               then ds @ replicate (nat dotplace - length ds) CHR ''0''
             else take (nat dotplace) ds @ ''.'' @ drop (nat dotplace) ds);
          ex = (if leftdigits = dotplace then ''''
                else ''E'' @ (if leftdigits - dotplace \<ge> 0 then ''+'' else ''-'')
                       @ str_nat (nat \<bar>leftdigits - dotplace\<bar>))
      in (if dsign d then ''-'' else '''') @ mantissa @ ex)"

definition pay_link ::
  "gateway \<Rightarrow> client \<Rightarrow> string \<Rightarrow> decimal \<Rightarrow> string \<Rightarrow> nat \<Rightarrow> (exn + pyval) \<times> nat" where
  "pay_link gw self unique_id amt name n =
     (let data = [(''unique_id'', PStr unique_id), (''name'', PStr name),
                  (''amount'', PStr (str_dec amt)), (''return_url'', return_url self),
                  (''coin'', PStr ''USDT''), (''callback_url'', callback_url self)]
      in post gw self ''payLink'' data n)"

definition check_deposit :: "gateway \<Rightarrow> client \<Rightarrow> string \<Rightarrow> nat \<Rightarrow> (exn + pyval) \<times> nat" where
  "check_deposit gw self unique_id n =
     (let data = [(''unique_id'', PStr unique_id)]
      in post gw self ''checkDeposit'' data n)"

section \<open>The specification's reading of a paid deposit check\<close>

text \<open>
  The success codes and the success statuses \<^verbatim>\<open>_extract_pay_result\<close> accepts for a
  creation result, named so that a deposit check can be compared with them.
\<close>

definition success_code :: "pyval \<Rightarrow> bool" where
  "success_code code = (py_eq_int code 10000 \<or> py_eq_int code 0 \<or> py_eq_int code 200)"

definition success_status :: "string \<Rightarrow> bool" where
  "success_status s = (s \<in> {''success'', ''ok'', ''1'', ''true''})"

definition paid_vocabulary :: "string set" where
  "paid_vocabulary = {''1'', ''true'', ''paid'', ''success''}"

text \<open>The nested payment status: \<^verbatim>\<open>data["status"]\<close>, else \<^verbatim>\<open>data["pay_status"]\<close>, else 0.\<close>

definition payment_status_field :: "(string \<times> pyval) list \<Rightarrow> pyval" where
  "payment_status_field kvs =
     dict_get (data_of kvs) ''status'' (dict_get (data_of kvs) ''pay_status'' (PInt 0))"

text \<open>
  The specification's words: paid exactly when the response carries a success code or
  a success status of the sets accepted for creation results, and the nested payment
  status, as a string and without regard to case, is in the paid vocabulary.
\<close>

definition paid_status_spec :: "pyval \<Rightarrow> bool" where
  "paid_status_spec resp =
     (case resp of
        PDict kvs \<Rightarrow>
          (success_code (dict_get kvs ''code'' PNone) \<or>
           success_status (lower (py_str (dict_get kvs ''status'' (PStr ''''))))) \<and>
          lower (py_str (payment_status_field kvs)) \<in> paid_vocabulary
      | _ \<Rightarrow> False)"

section \<open>The handlers\<close>

text \<open>
  A handler runs on the database and the count of requests sent, and ends with the message
  it replies or with the exception that escapes it.  The clock reads of one run are one
  value \<open>now\<close>.  The texts of the replies are Chinese; each constructor names one of
  them.
\<close>

type_synonym world = "db \<times> nat"

datatype reply =
    ReplyUsage  \<comment> \<open>use /cz [amount]\<close>
  | ReplyTooLow  \<comment> \<open>amount too low, at least 3U\<close>
  | ReplyTooHigh  \<comment> \<open>amount too high, at most ten thousand U\<close>
  | ReplyCreateFailedRetry  \<comment> \<open>creating the payment failed, try again later\<close>
  | ReplyCreateFailed pyval  \<comment> \<open>creating the payment failed, with the response\<close>
  | ReplyOrderCreated string decimal string string
      \<comment> \<open>order created: gateway order id, amount, pay URL, unique id of the check button\<close>
  | ReplyNoOrder  \<comment> \<open>the order does not exist or has expired\<close>
  | ReplyNotYourOrder  \<comment> \<open>this is not your order\<close>
  | ReplyAlreadyCredited  \<comment> \<open>already credited, no need to query again\<close>
  | ReplyQueryFailed  \<comment> \<open>the query failed, retry later\<close>
  | ReplyCredit credit_msg  \<comment> \<open>the text \<^verbatim>\<open>mark_order_paid_and_credit\<close> returned\<close>
  | ReplyCreditFailed  \<comment> \<open>crediting failed, contact the administrator\<close>
  | ReplyNotPaid  \<comment> \<open>no successful payment detected yet\<close>
  | ReplyStart  \<comment> \<open>the start text and keyboard\<close>
  | ReplyInfo decimal  \<comment> \<open>the user's data with the balance\<close>
  | ReplyFormatError  \<comment> \<open>wrong format\<close>
  | ReplyInsufficient  \<comment> \<open>\<^verbatim>\<open>INSUFFICIENT_TEXT\<close>\<close>
  | ReplyMaintain  \<comment> \<open>\<^verbatim>\<open>MAINTAIN_TEXT\<close>\<close>

text \<open>
  An argument of \<^verbatim>\<open>/cz\<close>, given as what \<^verbatim>\<open>Decimal(arg)\<close> makes of it: it raises
  \<^verbatim>\<open>InvalidOperation\<close>, or it is a finite number, an infinity (\<open>True\<close> is negative) or a
  NaN.
\<close>

datatype dec_arg = BadDecimal | Finite decimal | Infinite bool | NotANumber

text \<open>The name \<^verbatim>\<open>pay_link\<close> is given: \<^verbatim>\<open>TG\<close>, U+5145 U+503C (top-up), \<^verbatim>\<open>_\<close> and the user id.\<close>

definition order_name :: "int \<Rightarrow> string" where
  "order_name uid =
     ''TG'' @ [CHR 0xE5, CHR 0x85, CHR 0x85, CHR 0xE5, CHR 0x80, CHR 0xBC] @ ''_'' @ str_int uid"

text \<open>\<open>hex6\<close> is \<^verbatim>\<open>uuid.uuid4().hex[:6]\<close>.\<close>

definition cz ::
  "gateway \<Rightarrow> client \<Rightarrow> tg_user \<Rightarrow> dec_arg list \<Rightarrow> int \<Rightarrow> string \<Rightarrow> world
     \<Rightarrow> (exn + reply) \<times> world" where
  "cz gw self user args now hex6 w =
     (let d = ensure_user user now (fst w); n = snd w in
      if args = [] \<or> length args \<noteq> 1 then (Inr ReplyUsage, (d, n))
      else case hd args of
        BadDecimal \<Rightarrow> (Inr ReplyUsage, (d, n))
      | NotANumber \<Rightarrow> (Inl InvalidOperation, (d, n))
      | Infinite neg \<Rightarrow> (if neg then (Inr ReplyTooLow, (d, n)) else (Inr ReplyTooHigh, (d, n)))
      | Finite amt \<Rightarrow>
          if dec_less amt (dec_of_nat 3) then (Inr ReplyTooLow, (d, n))
          else if dec_less (dec_of_nat 10000) amt then (Inr ReplyTooHigh, (d, n))
          else
            let unique_id = ''cz_'' @ str_int (tg_id user) @ ''_'' @ str_int now @ ''_'' @ hex6
            in case pay_link gw self unique_id amt (order_name (tg_id user)) n of
                 (Inl e, n') \<Rightarrow> (Inr ReplyCreateFailedRetry, (d, n'))
               | (Inr resp, n') \<Rightarrow>
                   (case extract_pay_result resp of
                      (success, oid, url) \<Rightarrow>
                        if \<not> success then (Inr (ReplyCreateFailed resp), (d, n'))
                        else case create_order unique_id (tg_id user) amt oid url now d of
                               Inl e \<Rightarrow> (Inl e, (d, n'))
                             | Inr d' \<Rightarrow> (Inr (ReplyOrderCreated oid amt url unique_id), (d', n'))))"

definition handle_check_payment ::
  "gateway \<Rightarrow> client \<Rightarrow> int \<Rightarrow> string \<Rightarrow> int \<Rightarrow> world \<Rightarrow> (exn + reply) \<times> world" where
  "handle_check_payment gw self from_user unique_id now w =
     (let d = fst w; n = snd w in
      case get_order d unique_id of
        None \<Rightarrow> (Inr ReplyNoOrder, (d, n))
      | Some row \<Rightarrow>
          if from_user \<noteq> user_id row then (Inr ReplyNotYourOrder, (d, n))
          else if credited row = 1 then (Inr ReplyAlreadyCredited, (d, n))
          else case check_deposit gw self unique_id n of
                 (Inl e, n') \<Rightarrow> (Inr ReplyQueryFailed, (d, n'))
               | (Inr resp, n') \<Rightarrow>
                   if extract_paid_status resp then
                     (case mark_order_paid_and_credit unique_id now d of
                        ((ok, msg), d') \<Rightarrow>
                          (Inr (if ok then ReplyCredit msg else ReplyCreditFailed), (d', n')))
                   else (Inr ReplyNotPaid, (d, n')))"

definition start :: "tg_user \<Rightarrow> int \<Rightarrow> world \<Rightarrow> (exn + reply) \<times> world" where
  "start user now w = (Inr ReplyStart, (ensure_user user now (fst w), snd w))"

definition info :: "tg_user \<Rightarrow> int \<Rightarrow> world \<Rightarrow> (exn + reply) \<times> world" where
  "info user now w =
     (let d = ensure_user user now (fst w)
      in (Inr (ReplyInfo (get_points d (tg_id user))), (d, snd w)))"

text \<open>\<^verbatim>\<open>COST\<close>, keyed by the four commands that spend points.\<close>

datatype cmd = Ddz | Dt | Zdz_2 | Jdz

fun COST :: "cmd \<Rightarrow> decimal" where
  "COST Ddz = Decimal False 15 (- 1)"
| "COST Dt = Decimal False 18 (- 1)"
| "COST Zdz_2 = Decimal False 45 (- 1)"
| "COST Jdz = Decimal False 18 (- 1)"

text \<open>\<^verbatim>\<open>text.strip().split()\<close>, on the ASCII white space.\<close>

definition is_space :: "char \<Rightarrow> bool" where
  "is_space c \<longleftrightarrow> c \<in> {CHR '' '', CHR 0x09, CHR 0x0A, CHR 0x0B, CHR 0x0C, CHR 0x0D}"

fun split_ws :: "string \<Rightarrow> string \<Rightarrow> string list" where
  "split_ws cur [] = (if cur = [] then [] else [cur])"
| "split_ws cur (c # cs) =
     (if is_space c then (if cur = [] then split_ws [] cs else cur # split_ws [] cs)
      else split_ws (cur @ [c]) cs)"

definition parse_name_id_args :: "string \<Rightarrow> bool" where
  "parse_name_id_args text = (length (split_ws [] text) = 3)"

definition paid_command :: "tg_user \<Rightarrow> string \<Rightarrow> cmd \<Rightarrow> int \<Rightarrow> world \<Rightarrow> (exn + reply) \<times> world" where
  "paid_command user text c now w =
     (let d = ensure_user user now (fst w) in
      if \<not> parse_name_id_args text then (Inr ReplyFormatError, (d, snd w))
      else case deduct_points_if_enough (tg_id user) (COST c) d of
             (ok, d') \<Rightarrow> if \<not> ok then (Inr ReplyInsufficient, (d', snd w))
                         else (Inr ReplyMaintain, (d', snd w)))"

text \<open>
  The updates the bot receives.  A button press other than \<^verbatim>\<open>checkpay:<id>\<close> only
  replies; \<^verbatim>\<open>CheckPay\<close> is \<^verbatim>\<open>button_click\<close> with that data, from the given user.
\<close>

datatype event =
    Start tg_user int
  | Info tg_user int
  | Paid tg_user string cmd int
  | Cz tg_user "dec_arg list" int string
  | CheckPay int string int

fun handle :: "gateway \<Rightarrow> client \<Rightarrow> event \<Rightarrow> world \<Rightarrow> (exn + reply) \<times> world" where
  "handle gw self (Start user now) w = start user now w"
| "handle gw self (Info user now) w = info user now w"
| "handle gw self (Paid user text c now) w = paid_command user text c now w"
| "handle gw self (Cz user args now hex6) w = cz gw self user args now hex6 w"
| "handle gw self (CheckPay from_user unique_id now) w =
     handle_check_payment gw self from_user unique_id now w"

text \<open>The states the bot can be in: it starts on the empty tables and handles updates.\<close>

inductive reachable :: "gateway \<Rightarrow> client \<Rightarrow> world \<Rightarrow> bool" for gw self where
  reachable_init: "reachable gw self (init_db, 0)"
| reachable_step: "reachable gw self w \<Longrightarrow> reachable gw self (snd (handle gw self ev w))"

section \<open>Notions the properties are stated with\<close>

text \<open>
  What the gateway answers to the requests of the given strategies, the first of them
  being request number \<open>n\<close>: the answers \<^verbatim>\<open>_post\<close> gets when it tries them all.
\<close>

fun attempts_of ::
  "gateway \<Rightarrow> client \<Rightarrow> string \<Rightarrow> (string \<times> pyval) list \<Rightarrow> (bool \<times> bool) list \<Rightarrow> nat
     \<Rightarrow> attempt list" where
  "attempts_of gw self url data [] n = []"
| "attempts_of gw self url data (st # sts) n =
     gw n url (sign_data self data (fst st) (snd st)) # attempts_of gw self url data sts (n + 1)"

definition attempts ::
  "gateway \<Rightarrow> client \<Rightarrow> string \<Rightarrow> (string \<times> pyval) list \<Rightarrow> nat \<Rightarrow> attempt list" where
  "attempts gw self endpoint data n = attempts_of gw self (base self @ endpoint) data strategies n"

text \<open>An attempt after which the loop goes on: an exception, or an authentication failure.\<close>

fun goes_on :: "attempt \<Rightarrow> bool" where
  "goes_on Raises = True"
| "goes_on (Responds resp) = is_auth_failed resp"

fun responses :: "attempt list \<Rightarrow> pyval list" where
  "responses [] = []"
| "responses (Raises # as) = responses as"
| "responses (Responds resp # as) = resp # responses as"

text \<open>The unique id \<^verbatim>\<open>cz\<close> makes, and the request \<^verbatim>\<open>cz\<close> sends for an amount.\<close>

definition unique_id_of :: "tg_user \<Rightarrow> int \<Rightarrow> string \<Rightarrow> string" where
  "unique_id_of user now hex6 = ''cz_'' @ str_int (tg_id user) @ ''_'' @ str_int now @ ''_'' @ hex6"

definition cz_pay_link ::
  "gateway \<Rightarrow> client \<Rightarrow> tg_user \<Rightarrow> decimal \<Rightarrow> int \<Rightarrow> string \<Rightarrow> nat \<Rightarrow> (exn + pyval) \<times> nat" where
  "cz_pay_link gw self user amt now hex6 n =
     pay_link gw self (unique_id_of user now hex6) amt (order_name (tg_id user)) n"





section \<open>Invariants and example states\<close>



text \<open>User 7 holds 5 points; order \<open>cz_9\<close> of 5 USDT belongs to user 9, who has no row.\<close>

definition example_order :: order_row where
  "example_order = \<lparr>user_id = 9, amount = Decimal False 5 0, coin = ''USDT'', order_id = ''G1'',
     pay_url = ''https://pay/1'', status = 0, credited = 0, created_at = 100, paid_at = None\<rparr>"

definition example_db :: db where
  "example_db = \<lparr>users = [7 \<mapsto> \<lparr>username = ''u'', full_name = ''U'', points = Decimal False 5 0,
                                 u_created_at = 1\<rparr>],
                 orders = [''cz_9'' \<mapsto> example_order]\<rparr>"

text \<open>A client, a user, and gateways that always give the same answer.\<close>

definition example_client :: client where
  "example_client = \<lparr>merchant_id = ''1001'', token = ''secret'',
     base = ''https://api.okaypay.me/shop/'', return_url = PStr ''https://t.me/bot'',
     callback_url = PStr ''https://example.org/cb''\<rparr>"

definition example_user :: tg_user where
  "example_user = \<lparr>tg_id = 7, tg_username = ''u'', tg_full_name = ''U''\<rparr>"

definition gw_const :: "attempt \<Rightarrow> gateway" where
  "gw_const a = (\<lambda>n url body. a)"

text \<open>\<^verbatim>\<open>{"status": "error", "msg": <identity authentication failed>}\<close>\<close>

definition rejected_response :: pyval where
  "rejected_response = PDict [(''status'', PStr ''error''), (''msg'', PStr auth_failed_marker)]"

text \<open>\<^verbatim>\<open>{"code": 0, "msg": <identity authentication failed>, "data": {"pay_url": "https://pay/1"}}\<close>\<close>

definition rejected_with_link :: pyval where
  "rejected_with_link = PDict [(''code'', PInt 0), (''msg'', PStr auth_failed_marker),
     (''data'', PDict [(''pay_url'', PStr ''https://pay/1'')])]"

text \<open>\<^verbatim>\<open>{"code": 10000, "data": {"order_id": "G1", "pay_url": "https://pay/1"}}\<close>\<close>

definition created_response :: pyval where
  "created_response = PDict [(''code'', PInt 10000),
     (''data'', PDict [(''order_id'', PStr ''G1''), (''pay_url'', PStr ''https://pay/1'')])]"

text \<open>\<^verbatim>\<open>{"code": 10000, "data": {"status": 1}}\<close>\<close>

definition paid_response :: pyval where
  "paid_response = PDict [(''code'', PInt 10000), (''data'', PDict [(''status'', PInt 1)])]"

text \<open>I1: a credited order is paid.  Every order belongs to a user who has a row.\<close>

definition credited_implies_paid :: "db \<Rightarrow> bool" where
  "credited_implies_paid d = (\<forall>k row. orders d k = Some row \<longrightarrow> credited row = 1 \<longrightarrow> status row = 1)"

definition owners_exist :: "db \<Rightarrow> bool" where
  "owners_exist d = (\<forall>k row. orders d k = Some row \<longrightarrow> users d (user_id row) \<noteq> None)"

text \<open>The first request is answered with the created pay link, every later one with paid.\<close>

definition gw_demo :: gateway where
  "gw_demo = (\<lambda>n url body. if n = 0 then Responds created_response else Responds paid_response)"

text \<open>
  The scenario of the specification: user 7 orders 5 USDT (state \<open>demo_w1\<close>), pays, and
  checks the payment (state \<open>demo_w2\<close>).
\<close>

definition demo_w1 :: world where
  "demo_w1 = snd (handle gw_demo example_client
     (Cz example_user [Finite (Decimal False 5 0)] 100 ''abcdef'') (init_db, 0))"

definition demo_w2 :: world where
  "demo_w2 = snd (handle gw_demo example_client (CheckPay 7 ''cz_7_100_abcdef'' 200) demo_w1)"

definition demo_user_row :: user_row where
  "demo_user_row = \<lparr>username = ''u'', full_name = ''U'', points = Decimal False 0 0, u_created_at = 100\<rparr>"

definition demo_order :: order_row where
  "demo_order = \<lparr>user_id = 7, amount = Decimal False 5 0, coin = ''USDT'', order_id = ''G1'',
     pay_url = ''https://pay/1'', status = 0, credited = 0, created_at = 100, paid_at = None\<rparr>"

section \<open>Properties\<close>

lemma str_nat_nonempty: "str_nat n \<noteq> []"
  by (subst str_nat.simps) simp


subsection \<open>Decimal arithmetic\<close>






lemmas dec_eval = dec_add_def dec_sub_def dec_neg_def dec_fix_def dec_less_def dec_of_nat_def
  scaled_def signed_def ndigits_def str_nat.simps digit_char_def prec_def round_half_even_def Let_def

subsection \<open>The debit transaction\<close>


lemma deduct_snd:
  "snd (deduct_points_if_enough uid amt d) =
     (if dec_less (get_points d uid) amt then d
      else update_points uid (dec_sub (get_points d uid) amt) d)"
  by (simp add: deduct_points_if_enough_def get_points_def Let_def)








subsection \<open>The credit transaction\<close>

text \<open>
  \<^bold>\<open>C10.\<close>  When the order's \<^verbatim>\<open>user_id\<close> has no row in \<^verbatim>\<open>users\<close>, the credit
  transaction still marks the order paid and credited, commits and returns success with
  the amount, while the balance \<^verbatim>\<open>UPDATE\<close> matches no row: the \<^verbatim>\<open>users\<close> table is
  unchanged and every balance reads as before.
\<close>

theorem credit_without_user_row:
  assumes "orders d k = Some row" and "credited row \<noteq> 1" and "users d (user_id row) = None"
  shows "mark_order_paid_and_credit k now d =
           ((True, MsgCredited (amount row)),
            d\<lparr>orders := (orders d)(k \<mapsto> row\<lparr>status := 1, credited := 1, paid_at := Some now\<rparr>)\<rparr>) \<and>
         users (snd (mark_order_paid_and_credit k now d)) = users d \<and>
         get_points (snd (mark_order_paid_and_credit k now d)) v = get_points d v"
  using assms by (simp add: mark_order_paid_and_credit_def update_points_def get_points_def Let_def)

theorem credit_without_user_row_witness:
  "mark_order_paid_and_credit ''cz_9'' 200 example_db =
     ((True, MsgCredited (Decimal False 5 0)),
      example_db\<lparr>orders := (orders example_db)(''cz_9'' \<mapsto>
         example_order\<lparr>status := 1, credited := 1, paid_at := Some 200\<rparr>)\<rparr>) \<and>
   users (snd (mark_order_paid_and_credit ''cz_9'' 200 example_db)) = users example_db \<and>
   get_points (snd (mark_order_paid_and_credit ''cz_9'' 200 example_db)) 9 = Decimal False 0 0"
proof -
  have o: "orders example_db ''cz_9'' = Some example_order"
    by (simp add: example_db_def)
  have c: "credited example_order \<noteq> 1"
    by (simp add: example_order_def)
  have u: "users example_db (user_id example_order) = None"
    by (simp add: example_db_def example_order_def)
  have g: "get_points example_db 9 = Decimal False 0 0"
    by (simp add: get_points_def example_db_def dec_of_nat_def)
  have a: "amount example_order = Decimal False 5 0"
    by (simp add: example_order_def)
  show ?thesis
    using credit_without_user_row [OF o c u, of 200 9] unfolding g a .
qed

subsection \<open>Response normalisation\<close>

lemmas py_eval = repr_str_def repr_char_def str_int_def str_nat.simps digit_char_def hex_lower_def
  lower_char_def py_or_def dict_get_def data_of_def Let_def

lemma extract_pay_result_success:
  "fst (extract_pay_result (PDict kvs)) \<Longrightarrow>
     success_code (dict_get kvs ''code'' PNone) \<or>
     success_status (lower (py_str (dict_get kvs ''status'' (PStr ''''))))"
  by (simp add: extract_pay_result_def success_code_def success_status_def Let_def)

lemma lower_paid_vocabulary: "s \<in> paid_vocabulary \<Longrightarrow> lower s = s"
  by (auto simp: paid_vocabulary_def lower_char_def)

lemma extract_paid_status_dict: "extract_paid_status resp \<Longrightarrow> \<exists>kvs. resp = PDict kvs"
  by (cases resp) (simp_all add: extract_paid_status_def)

lemma extract_paid_status_exact:
  "extract_paid_status (PDict kvs) \<longleftrightarrow>
     (success_code (dict_get kvs ''code'' PNone) \<or>
      lower (py_str (dict_get kvs ''status'' (PStr ''''))) \<in> {''success'', ''ok''}) \<and>
     py_str (payment_status_field kvs) \<in> paid_vocabulary"
  by (simp add: extract_paid_status_def success_code_def paid_vocabulary_def
      payment_status_field_def Let_def)

text \<open>
  A creation status the deposit check does not accept: \<^verbatim>\<open>{"status": "1", "data":
  {"status": "paid"}}\<close> carries the success status \<^verbatim>\<open>"1"\<close> and the payment status
  \<^verbatim>\<open>"paid"\<close>, and \<^verbatim>\<open>_extract_paid_status\<close> returns \<open>False\<close>.
\<close>

theorem paid_status_spec_counterexample:
  "paid_status_spec (PDict [(''status'', PStr ''1''), (''data'', PDict [(''status'', PStr ''paid'')])]) \<and>
   \<not> extract_paid_status (PDict [(''status'', PStr ''1''), (''data'', PDict [(''status'', PStr ''paid'')])])"
  by (simp add: paid_status_spec_def extract_paid_status_def success_code_def success_status_def
      paid_vocabulary_def payment_status_field_def py_eval)

text \<open>
  The payment status is compared as it is written: the JSON value \<^verbatim>\<open>true\<close> is the string
  \<^verbatim>\<open>"True"\<close>, and \<^verbatim>\<open>"PAID"\<close> stays in capitals; neither is in the vocabulary.
\<close>

lemma extract_paid_status_case_sensitive:
  "\<not> extract_paid_status (PDict [(''code'', PInt 0), (''data'', PDict [(''status'', PBool True)])]) \<and>
   \<not> extract_paid_status (PDict [(''code'', PInt 0), (''data'', PDict [(''status'', PStr ''PAID'')])]) \<and>
   extract_paid_status (PDict [(''code'', PInt 0), (''data'', PDict [(''status'', PStr ''paid'')])])"
  by (simp add: extract_paid_status_def py_eval)

text \<open>
  \<^bold>\<open>C4\<close>, amended.  A response that is not a JSON object is never paid.  A JSON object
  is paid only if it carries a success code (10000, 0 or 200) or a top-level status that
  is \<^verbatim>\<open>success\<close> or \<^verbatim>\<open>ok\<close> in lower case, and its nested payment status, as a string
  in lower case, is in the paid vocabulary; and it is paid whenever it carries such a code
  or status and the nested payment status, as a string, is one of the four words of the
  vocabulary as they are written.
\<close>

theorem extract_paid_status_bounds:
  "(extract_paid_status resp \<longrightarrow>
      (\<exists>kvs. resp = PDict kvs \<and>
         (success_code (dict_get kvs ''code'' PNone) \<or>
          lower (py_str (dict_get kvs ''status'' (PStr ''''))) \<in> {''success'', ''ok''}) \<and>
         lower (py_str (payment_status_field kvs)) \<in> paid_vocabulary)) \<and>
   ((success_code (dict_get kvs ''code'' PNone) \<or>
     lower (py_str (dict_get kvs ''status'' (PStr ''''))) \<in> {''success'', ''ok''}) \<and>
    py_str (payment_status_field kvs) \<in> paid_vocabulary
      \<longrightarrow> extract_paid_status (PDict kvs))"
proof (intro conjI impI)
  assume p: "extract_paid_status resp"
  then obtain kvs where r: "resp = PDict kvs"
    using extract_paid_status_dict by blast
  with p have "(success_code (dict_get kvs ''code'' PNone) \<or>
      lower (py_str (dict_get kvs ''status'' (PStr ''''))) \<in> {''success'', ''ok''}) \<and>
     py_str (payment_status_field kvs) \<in> paid_vocabulary"
    by (simp only: extract_paid_status_exact)
  then show "\<exists>kvs. resp = PDict kvs \<and>
         (success_code (dict_get kvs ''code'' PNone) \<or>
          lower (py_str (dict_get kvs ''status'' (PStr ''''))) \<in> {''success'', ''ok''}) \<and>
         lower (py_str (payment_status_field kvs)) \<in> paid_vocabulary"
    using r by (auto simp: lower_paid_vocabulary)
next
  assume "(success_code (dict_get kvs ''code'' PNone) \<or>
     lower (py_str (dict_get kvs ''status'' (PStr ''''))) \<in> {''success'', ''ok''}) \<and>
    py_str (payment_status_field kvs) \<in> paid_vocabulary"
  then show "extract_paid_status (PDict kvs)"
    by (simp only: extract_paid_status_exact)
qed

theorem extract_paid_status_bounds_witness:
  "extract_paid_status (PDict [(''status'', PStr ''OK''), (''data'', PDict [(''pay_status'', PInt 1)])]) \<and>
   lower (py_str (payment_status_field
      [(''status'', PStr ''OK''), (''data'', PDict [(''pay_status'', PInt 1)])])) \<in> paid_vocabulary"
proof -
  let ?kvs = "[(''status'', PStr ''OK''), (''data'', PDict [(''pay_status'', PInt 1)])]"
  have a: "lower (py_str (dict_get ?kvs ''status'' (PStr ''''))) \<in> {''success'', ''ok''}"
    by (simp add: py_eval)
  have b: "py_str (payment_status_field ?kvs) \<in> paid_vocabulary"
    by (simp add: payment_status_field_def paid_vocabulary_def py_eval)
  from extract_paid_status_bounds [of "PDict ?kvs" ?kvs] a b
  have p: "extract_paid_status (PDict ?kvs)" by blast
  with extract_paid_status_bounds [of "PDict ?kvs" ?kvs]
  have "lower (py_str (payment_status_field ?kvs)) \<in> paid_vocabulary" by blast
  with p show ?thesis by blast
qed

subsection \<open>The strategy fallback of the gateway client\<close>

lemma is_auth_failed_not_None: "is_auth_failed resp \<Longrightarrow> resp \<noteq> PNone"
  by (auto simp: is_auth_failed_def)

lemma post_loop_exhausted:
  "\<forall>a \<in> set (attempts_of gw self url data sts n). goes_on a \<Longrightarrow>
   post_loop gw self url data sts n last_resp =
     (let rs = responses (attempts_of gw self url data sts n)
      in if rs \<noteq> [] then Inr (last rs)
         else if last_resp \<noteq> PNone then Inr last_resp else Inl RuntimeError,
      n + length sts)"
proof (induction sts arbitrary: n last_resp)
  case Nil
  then show ?case by simp
next
  case (Cons st sts)
  show ?case
  proof (cases "gw n url (sign_data self data (fst st) (snd st))")
    case Raises
    with Cons show ?thesis by (simp add: Let_def)
  next
    case (Responds resp)
    with Cons.prems have af: "is_auth_failed resp" by simp
    then have "resp \<noteq> PNone" by (rule is_auth_failed_not_None)
    with Cons Responds af show ?thesis by (simp add: Let_def)
  qed
qed

lemma post_loop_raises_iff:
  "fst (post_loop gw self url data sts n last_resp) = Inl RuntimeError \<longleftrightarrow>
     last_resp = PNone \<and> (\<forall>a \<in> set (attempts_of gw self url data sts n). a = Raises)"
proof (induction sts arbitrary: n last_resp)
  case Nil
  then show ?case by simp
next
  case (Cons st sts)
  show ?case
  proof (cases "gw n url (sign_data self data (fst st) (snd st))")
    case Raises
    with Cons show ?thesis by (simp add: Let_def)
  next
    case (Responds resp)
    with Cons show ?thesis by (auto simp: Let_def dest: is_auth_failed_not_None)
  qed
qed

lemma post_loop_count:
  "snd (post_loop gw self url data sts n last_resp) \<le> n + length sts \<and>
   (sts \<noteq> [] \<longrightarrow> n < snd (post_loop gw self url data sts n last_resp))"
proof (induction sts arbitrary: n last_resp)
  case Nil
  then show ?case by simp
next
  case (Cons st sts)
  have a: "snd (post_loop gw self url data sts (n + 1) r) \<le> n + 1 + length sts" for r
    using Cons [of "n + 1" r] by simp
  have b: "n + 1 \<le> snd (post_loop gw self url data sts (n + 1) r)" for r
    using Cons [of "n + 1" r] by (cases sts) auto
  show ?case
  proof (cases "gw n url (sign_data self data (fst st) (snd st))")
    case Raises
    with a [of last_resp] b [of last_resp] show ?thesis by (simp add: Let_def)
  next
    case (Responds resp)
    with a [of resp] b [of resp] show ?thesis by (simp add: Let_def)
  qed
qed

lemma length_attempts_of: "length (attempts_of gw self url data sts n) = length sts"
  by (induction sts arbitrary: n) simp_all

text \<open>
  \<^bold>\<open>C6.\<close>  The strategies are a fixed list of four different pairs, tried in its order.
  If every one of the four attempts ends in an exception or in an authentication failure,
  \<^verbatim>\<open>_post\<close> has sent exactly four requests and returns the last response received, when
  there is one, and raises otherwise.  In every case it raises exactly when all four
  attempts ended in an exception, and it sends at least one and at most four requests.
\<close>

theorem post_strategy_fallback:
  "strategies = [(False, True), (True, True), (False, False), (True, False)] \<and>
   length (attempts gw self endpoint data n) = 4 \<and>
   ((\<forall>a \<in> set (attempts gw self endpoint data n). goes_on a) \<longrightarrow>
      post gw self endpoint data n =
        (if responses (attempts gw self endpoint data n) \<noteq> []
         then Inr (last (responses (attempts gw self endpoint data n)))
         else Inl RuntimeError, n + 4)) \<and>
   (fst (post gw self endpoint data n) = Inl RuntimeError \<longleftrightarrow>
      (\<forall>a \<in> set (attempts gw self endpoint data n). a = Raises)) \<and>
   n < snd (post gw self endpoint data n) \<and> snd (post gw self endpoint data n) \<le> n + 4"
proof -
  have len: "length strategies = 4" by (simp add: strategies_def)
  have ne: "strategies \<noteq> []" by (simp add: strategies_def)
  have 1: "(\<forall>a \<in> set (attempts gw self endpoint data n). goes_on a) \<longrightarrow>
      post gw self endpoint data n =
        (if responses (attempts gw self endpoint data n) \<noteq> []
         then Inr (last (responses (attempts gw self endpoint data n)))
         else Inl RuntimeError, n + 4)"
    unfolding post_def attempts_def
    by (simp add: post_loop_exhausted Let_def len)
  have 2: "fst (post gw self endpoint data n) = Inl RuntimeError \<longleftrightarrow>
      (\<forall>a \<in> set (attempts gw self endpoint data n). a = Raises)"
    unfolding post_def attempts_def by (simp add: post_loop_raises_iff)
  have 3: "n < snd (post gw self endpoint data n) \<and> snd (post gw self endpoint data n) \<le> n + 4"
    unfolding post_def
    using post_loop_count [of gw self "base self @ endpoint" "data" strategies n PNone] ne len
    by simp
  show ?thesis
    using 1 2 3 by (simp add: attempts_def length_attempts_of len) (simp add: strategies_def)
qed

lemma attempts_gw_const:
  "attempts (gw_const a) self endpoint data n = [a, a, a, a]"
  by (simp add: attempts_def strategies_def gw_const_def)

lemma rejected_response_auth_failed: "is_auth_failed rejected_response"
  by (simp add: is_auth_failed_def rejected_response_def auth_failed_marker_def py_eval)

theorem post_strategy_fallback_witness:
  "post (gw_const (Responds rejected_response)) example_client ''payLink'' [] 0
     = (Inr rejected_response, 4) \<and>
   post (gw_const Raises) example_client ''payLink'' [] 0 = (Inl RuntimeError, 4)"
proof -
  note a = post_strategy_fallback
    [of "gw_const (Responds rejected_response)" example_client "''payLink''" "[]" 0,
      unfolded attempts_gw_const]
  note b = post_strategy_fallback
    [of "gw_const Raises" example_client "''payLink''" "[]" 0, unfolded attempts_gw_const]
  have "post (gw_const (Responds rejected_response)) example_client ''payLink'' [] 0
     = (Inr rejected_response, 4)"
    using a rejected_response_auth_failed by simp
  moreover have "post (gw_const Raises) example_client ''payLink'' [] 0 = (Inl RuntimeError, 4)"
    using b by simp
  ultimately show ?thesis by simp
qed

subsection \<open>Checking a payment\<close>

text \<open>
  \<^bold>\<open>C8.\<close>  For an order that exists and a requesting user who is not its owner,
  \<^verbatim>\<open>handle_check_payment\<close> replies that the order is not theirs, whatever the gateway
  would answer: the database is the same and no request has been sent.
\<close>

theorem check_payment_ownership:
  assumes "get_order (fst w) unique_id = Some row" and "from_user \<noteq> user_id row"
  shows "handle_check_payment gw self from_user unique_id now w = (Inr ReplyNotYourOrder, w)"
  using assms by (simp add: handle_check_payment_def Let_def)

theorem check_payment_ownership_witness:
  "handle_check_payment (gw_const (Responds paid_response)) example_client 7 ''cz_9'' 200
     (example_db, 0) = (Inr ReplyNotYourOrder, (example_db, 0))"
proof -
  have o: "get_order (fst (example_db, 0 :: nat)) ''cz_9'' = Some example_order"
    by (simp add: get_order_def example_db_def)
  have u: "7 \<noteq> user_id example_order"
    by (simp add: example_order_def)
  show ?thesis
    using check_payment_ownership [where w = "(example_db, 0::nat)" and unique_id = "''cz_9''"
        and row = example_order and from_user = 7, OF o u] .
qed

subsection \<open>Creating an order\<close>

lemma dec_val_scaled:
  assumes "e \<le> dexp d"
  shows "dec_val d = of_int (scaled e d) * 10 powi e"
proof -
  have "(10::rat) powi (dexp d) = 10 powi (dexp d - e) * 10 powi e"
    by (simp flip: power_int_add)
  moreover have "(10::rat) powi (dexp d - e) = 10 ^ nat (dexp d - e)"
    using assms by (simp add: power_int_def)
  ultimately show ?thesis
    by (simp add: dec_val_def scaled_def)
qed

lemma dec_less_iff: "dec_less a b \<longleftrightarrow> dec_val a < dec_val b"
proof -
  let ?e = "min (dexp a) (dexp b)"
  have p: "(0::rat) < 10 powi ?e" by simp
  have "dec_val a = of_int (scaled ?e a) * 10 powi ?e" "dec_val b = of_int (scaled ?e b) * 10 powi ?e"
    by (rule dec_val_scaled, simp)+
  then show ?thesis
    using p by (simp add: dec_less_def Let_def mult_less_cancel_right_pos del: zero_less_power_int)
qed

lemma dec_val_of_nat: "dec_val (dec_of_nat n) = of_nat n"
  by (simp add: dec_val_def dec_of_nat_def signed_def)

lemma orders_ensure_user: "orders (ensure_user user now d) = orders d"
  by (simp add: ensure_user_def Let_def)

lemma cz_not_single:
  "length args \<noteq> 1 \<Longrightarrow>
   cz gw self user args now hex6 w = (Inr ReplyUsage, (ensure_user user now (fst w), snd w))"
  by (cases args) (simp_all add: cz_def Let_def)

lemma cz_single_other:
  "cz gw self user [BadDecimal] now hex6 w = (Inr ReplyUsage, (ensure_user user now (fst w), snd w))"
  "cz gw self user [NotANumber] now hex6 w
     = (Inl InvalidOperation, (ensure_user user now (fst w), snd w))"
  "cz gw self user [Infinite neg] now hex6 w
     = (Inr (if neg then ReplyTooLow else ReplyTooHigh), (ensure_user user now (fst w), snd w))"
  by (simp_all add: cz_def Let_def)

lemma cz_too_low:
  "dec_less amt (dec_of_nat 3) \<Longrightarrow>
   cz gw self user [Finite amt] now hex6 w = (Inr ReplyTooLow, (ensure_user user now (fst w), snd w))"
  by (simp add: cz_def Let_def)

lemma cz_too_high:
  "\<not> dec_less amt (dec_of_nat 3) \<Longrightarrow> dec_less (dec_of_nat 10000) amt \<Longrightarrow>
   cz gw self user [Finite amt] now hex6 w = (Inr ReplyTooHigh, (ensure_user user now (fst w), snd w))"
  by (simp add: cz_def Let_def)

text \<open>The run of \<^verbatim>\<open>cz\<close> on an amount within the bounds, by what the gateway client returns.\<close>

lemma cz_in_range:
  assumes "\<not> dec_less amt (dec_of_nat 3)" and "\<not> dec_less (dec_of_nat 10000) amt"
  shows "cz gw self user [Finite amt] now hex6 w =
     (let d = ensure_user user now (fst w); k = unique_id_of user now hex6
      in case cz_pay_link gw self user amt now hex6 (snd w) of
           (Inl e, n') \<Rightarrow> (Inr ReplyCreateFailedRetry, (d, n'))
         | (Inr resp, n') \<Rightarrow>
             if \<not> fst (extract_pay_result resp) then (Inr (ReplyCreateFailed resp), (d, n'))
             else case create_order k (tg_id user) amt (fst (snd (extract_pay_result resp)))
                         (snd (snd (extract_pay_result resp))) now d of
                    Inl e \<Rightarrow> (Inl e, (d, n'))
                  | Inr d' \<Rightarrow>
                      (Inr (ReplyOrderCreated (fst (snd (extract_pay_result resp))) amt
                              (snd (snd (extract_pay_result resp))) k), (d', n')))"
  using assms
  by (simp add: cz_def Let_def cz_pay_link_def unique_id_of_def split: prod.splits sum.splits)

lemma post_count:
  "n < snd (post gw self endpoint data n) \<and> snd (post gw self endpoint data n) \<le> n + 4"
proof -
  have len: "length strategies = 4" by (simp add: strategies_def)
  have ne: "strategies \<noteq> []" by (simp add: strategies_def)
  show ?thesis
    unfolding post_def
    using post_loop_count [of gw self "base self @ endpoint" "data" strategies n PNone] ne len
    by simp
qed

lemma cz_pay_link_count:
  "n < snd (cz_pay_link gw self user amt now hex6 n)"
  by (simp only: cz_pay_link_def pay_link_def Let_def post_count)

lemmas dec_val_eval = dec_val_def signed_def power_int_def power_divide dec_of_nat_def

lemma cz_orders_changed:
  assumes "orders (fst (snd (cz gw self user args now hex6 w))) \<noteq> orders (fst w)"
  shows "\<exists>oid amt url k. fst (cz gw self user args now hex6 w) = Inr (ReplyOrderCreated oid amt url k)"
proof (cases "length args = 1")
  case False
  with assms show ?thesis by (simp add: cz_not_single orders_ensure_user)
next
  case True
  then obtain a where args: "args = [a]" by (cases args) auto
  show ?thesis
  proof (cases a)
    case (Finite amt)
    show ?thesis
    proof (cases "dec_less amt (dec_of_nat 3) \<or> dec_less (dec_of_nat 10000) amt")
      case True
      with assms args Finite show ?thesis
        by (cases "dec_less amt (dec_of_nat 3)") (simp_all add: cz_too_low cz_too_high orders_ensure_user)
    next
      case False
      then have r: "\<not> dec_less amt (dec_of_nat 3)" "\<not> dec_less (dec_of_nat 10000) amt" by simp_all
      from assms show ?thesis
        unfolding args Finite cz_in_range [OF r]
        by (auto simp: Let_def orders_ensure_user split: prod.splits sum.splits if_splits)
    qed
  qed (use assms args in \<open>simp_all add: cz_single_other orders_ensure_user\<close>)
qed

text \<open>
  \<^bold>\<open>C3\<close>, amended.  For an amount within the bounds: when the gateway client raises
  (no strategy produced a response), \<^verbatim>\<open>cz\<close> replies that creating the payment failed;
  when it returns a response that does not normalise to success (no pay URL, or neither a
  success code nor a success status), \<^verbatim>\<open>cz\<close> replies that creating the payment failed,
  with the response.  In both cases the database is the one \<^verbatim>\<open>ensure_user\<close> left and the
  \<^verbatim>\<open>orders\<close> table is unchanged.  On every run of \<^verbatim>\<open>cz\<close>, whatever its arguments, the
  \<^verbatim>\<open>orders\<close> table changes only when the reply is that the order was created.  A response
  that signals an authentication failure is judged by the same normalisation and by nothing
  else.
\<close>

theorem cz_failed_creation:
  assumes "\<not> dec_less amt (dec_of_nat 3)" and "\<not> dec_less (dec_of_nat 10000) amt"
  shows
    "(\<forall>e n'. cz_pay_link gw self user amt now hex6 (snd w) = (Inl e, n') \<longrightarrow>
        cz gw self user [Finite amt] now hex6 w
          = (Inr ReplyCreateFailedRetry, (ensure_user user now (fst w), n'))) \<and>
     (\<forall>resp n'. cz_pay_link gw self user amt now hex6 (snd w) = (Inr resp, n') \<and>
          \<not> fst (extract_pay_result resp) \<longrightarrow>
        cz gw self user [Finite amt] now hex6 w
          = (Inr (ReplyCreateFailed resp), (ensure_user user now (fst w), n'))) \<and>
     orders (ensure_user user now (fst w)) = orders (fst w) \<and>
     (orders (fst (snd (cz gw self user args now hex6 w))) \<noteq> orders (fst w) \<longrightarrow>
        (\<exists>oid a url k. fst (cz gw self user args now hex6 w) = Inr (ReplyOrderCreated oid a url k)))"
  using cz_orders_changed [of gw self user args now hex6 w]
  by (simp add: cz_in_range [OF assms] Let_def orders_ensure_user)

lemma rejected_response_not_success: "\<not> fst (extract_pay_result rejected_response)"
  by (simp add: extract_pay_result_def rejected_response_def py_eval)

lemma post_gw_const_rejected:
  "is_auth_failed r \<Longrightarrow> post (gw_const (Responds r)) self endpoint data n = (Inr r, n + 4)"
  by (simp add: post_def strategies_def gw_const_def is_auth_failed_not_None)

lemma post_gw_const_raises:
  "post (gw_const Raises) self endpoint data n = (Inl RuntimeError, n + 4)"
  by (simp add: post_def strategies_def gw_const_def)

lemma five_in_range:
  "\<not> dec_less (Decimal False 5 0) (dec_of_nat 3)" "\<not> dec_less (dec_of_nat 10000) (Decimal False 5 0)"
  by (simp_all add: dec_eval)

theorem cz_failed_creation_witness:
  "cz (gw_const Raises) example_client example_user [Finite (Decimal False 5 0)] 100 ''abcdef''
      (example_db, 0)
     = (Inr ReplyCreateFailedRetry, (ensure_user example_user 100 example_db, 4)) \<and>
   cz (gw_const (Responds rejected_response)) example_client example_user
      [Finite (Decimal False 5 0)] 100 ''abcdef'' (example_db, 0)
     = (Inr (ReplyCreateFailed rejected_response), (ensure_user example_user 100 example_db, 4)) \<and>
   orders (ensure_user example_user 100 example_db) = orders example_db"
proof -
  have a: "cz_pay_link (gw_const Raises) example_client example_user (Decimal False 5 0) 100
      ''abcdef'' (snd (example_db, 0::nat)) = (Inl RuntimeError, 4)"
    by (simp add: cz_pay_link_def pay_link_def post_gw_const_raises)
  have b: "cz_pay_link (gw_const (Responds rejected_response)) example_client example_user
      (Decimal False 5 0) 100 ''abcdef'' (snd (example_db, 0::nat)) = (Inr rejected_response, 4)"
    by (simp add: cz_pay_link_def pay_link_def post_gw_const_rejected rejected_response_auth_failed)
  note t1 = cz_failed_creation [OF five_in_range, of "gw_const Raises" example_client example_user
      100 "''abcdef''" "(example_db, 0)" "[]"]
  note t2 = cz_failed_creation [OF five_in_range, of "gw_const (Responds rejected_response)"
      example_client example_user 100 "''abcdef''" "(example_db, 0)" "[]"]
  from t1 a have 1: "cz (gw_const Raises) example_client example_user [Finite (Decimal False 5 0)]
      100 ''abcdef'' (example_db, 0)
     = (Inr ReplyCreateFailedRetry, (ensure_user example_user 100 (fst (example_db, 0::nat)), 4))"
    by blast
  from t2 b rejected_response_not_success
  have 2: "cz (gw_const (Responds rejected_response)) example_client example_user
      [Finite (Decimal False 5 0)] 100 ''abcdef'' (example_db, 0)
     = (Inr (ReplyCreateFailed rejected_response),
        (ensure_user example_user 100 (fst (example_db, 0::nat)), 4))"
    by blast
  from t1 have 3: "orders (ensure_user example_user 100 (fst (example_db, 0::nat)))
     = orders (fst (example_db, 0::nat))"
    by blast
  from 1 2 3 show ?thesis by simp
qed

text \<open>
  The specification's sentence fails on a response that signals the authentication failure
  and also carries a success code and a pay URL: all four strategies are rejected, the
  last response is returned, it normalises to success, and the order is stored.
\<close>

theorem cz_unauthenticated_counterexample:
  "is_auth_failed rejected_with_link \<and>
   cz_pay_link (gw_const (Responds rejected_with_link)) example_client example_user
      (Decimal False 5 0) 100 ''abcdef'' 0 = (Inr rejected_with_link, 4) \<and>
   fst (cz (gw_const (Responds rejected_with_link)) example_client example_user
      [Finite (Decimal False 5 0)] 100 ''abcdef'' (init_db, 0))
     = Inr (ReplyOrderCreated [] (Decimal False 5 0) ''https://pay/1'' ''cz_7_100_abcdef'') \<and>
   orders (fst (snd (cz (gw_const (Responds rejected_with_link)) example_client example_user
      [Finite (Decimal False 5 0)] 100 ''abcdef'' (init_db, 0)))) ''cz_7_100_abcdef'' \<noteq> None"
proof -
  have af: "is_auth_failed rejected_with_link"
    by (simp add: is_auth_failed_def rejected_with_link_def auth_failed_marker_def py_eval)
  have pl: "cz_pay_link (gw_const (Responds rejected_with_link)) example_client example_user
      (Decimal False 5 0) 100 ''abcdef'' n = (Inr rejected_with_link, n + 4)" for n
    by (simp add: cz_pay_link_def pay_link_def post_gw_const_rejected af)
  have ex: "extract_pay_result rejected_with_link = (True, [], ''https://pay/1'')"
    by (simp add: extract_pay_result_def rejected_with_link_def py_eval)
  have k: "unique_id_of example_user 100 ''abcdef'' = ''cz_7_100_abcdef''"
    by (simp add: unique_id_of_def example_user_def str_int_def str_nat.simps digit_char_def)
  have cz: "cz (gw_const (Responds rejected_with_link)) example_client example_user
      [Finite (Decimal False 5 0)] 100 ''abcdef'' (init_db, 0)
     = (Inr (ReplyOrderCreated [] (Decimal False 5 0) ''https://pay/1'' ''cz_7_100_abcdef''),
        ((ensure_user example_user 100 init_db)\<lparr>orders := (orders (ensure_user example_user 100 init_db))
            (''cz_7_100_abcdef'' \<mapsto> \<lparr>user_id = 7, amount = Decimal False 5 0, coin = ''USDT'',
               order_id = [], pay_url = ''https://pay/1'', status = 0, credited = 0,
               created_at = 100, paid_at = None\<rparr>)\<rparr>, 4))"
  proof -
    have tg: "tg_id example_user = 7" by (simp add: example_user_def)
    have fresh: "orders (ensure_user example_user 100 init_db) = Map.empty"
      by (simp add: orders_ensure_user init_db_def)
    show ?thesis
      by (simp add: cz_in_range [OF five_in_range] pl ex k Let_def create_order_def fresh tg)
  qed
  show ?thesis
    using af pl [of 0] by (simp add: cz)
qed

lemma cz_in_range_count:
  assumes "\<not> dec_less amt (dec_of_nat 3)" and "\<not> dec_less (dec_of_nat 10000) amt"
  shows "snd (snd (cz gw self user [Finite amt] now hex6 w))
           = snd (cz_pay_link gw self user amt now hex6 (snd w))"
  by (simp add: cz_in_range [OF assms] Let_def split: prod.splits sum.splits)

lemma cz_created:
  assumes "\<not> dec_less amt (dec_of_nat 3)" and "\<not> dec_less (dec_of_nat 10000) amt"
    and "cz_pay_link gw self user amt now hex6 (snd w) = (Inr resp, n')"
    and "extract_pay_result resp = (True, oid, url)"
    and "unique_id_of user now hex6 \<notin> dom (orders (fst w))"
  shows "fst (cz gw self user [Finite amt] now hex6 w)
           = Inr (ReplyOrderCreated oid amt url (unique_id_of user now hex6)) \<and>
         orders (fst (snd (cz gw self user [Finite amt] now hex6 w))) (unique_id_of user now hex6)
           = Some \<lparr>user_id = tg_id user, amount = amt, coin = ''USDT'', order_id = oid,
                   pay_url = url, status = 0, credited = 0, created_at = now, paid_at = None\<rparr>"
  using assms(3-5)
  by (simp add: cz_in_range [OF assms(1,2)] Let_def create_order_def orders_ensure_user)

lemma cz_requests_iff:
  "snd w < snd (snd (cz gw self user args now hex6 w)) \<longleftrightarrow>
     (\<exists>a. args = [Finite a] \<and> \<not> dec_less a (dec_of_nat 3) \<and> \<not> dec_less (dec_of_nat 10000) a)"
proof (cases "length args = 1")
  case False
  then show ?thesis by (auto simp: cz_not_single)
next
  case True
  then obtain a where args: "args = [a]" by (cases args) auto
  show ?thesis
  proof (cases a)
    case (Finite amt)
    show ?thesis
    proof (cases "dec_less amt (dec_of_nat 3)")
      case True
      then show ?thesis by (simp add: args Finite cz_too_low)
    next
      case low: False
      show ?thesis
      proof (cases "dec_less (dec_of_nat 10000) amt")
        case True
        with low show ?thesis by (simp add: args Finite cz_too_high)
      next
        case False
        with low show ?thesis
          by (simp add: args Finite cz_in_range_count cz_pay_link_count)
      qed
    qed
  qed (simp_all add: args cz_single_other)
qed

text \<open>
  \<^bold>\<open>C7.\<close>  An amount below 3 is refused as too low and an amount above 10000 as too
  high, in both cases with no request sent (the count of requests is the same, whatever
  the gateway).  An amount from 3 to 10000, bounds included, goes to the gateway (a request
  is sent), and when the gateway's response normalises to success and the unique id is a
  new key, the reply is that the order was created and the order is stored pending and not
  credited.  A request is sent exactly when the argument is one finite amount in
  \<open>[3, 10000]\<close>.
\<close>

theorem cz_amount_bounds:
  "(dec_val amt < 3 \<longrightarrow>
      cz gw self user [Finite amt] now hex6 w
        = (Inr ReplyTooLow, (ensure_user user now (fst w), snd w))) \<and>
   (10000 < dec_val amt \<longrightarrow>
      cz gw self user [Finite amt] now hex6 w
        = (Inr ReplyTooHigh, (ensure_user user now (fst w), snd w))) \<and>
   (3 \<le> dec_val amt \<and> dec_val amt \<le> 10000 \<longrightarrow>
      snd w < snd (snd (cz gw self user [Finite amt] now hex6 w)) \<and>
      (\<forall>resp n' oid url.
         cz_pay_link gw self user amt now hex6 (snd w) = (Inr resp, n') \<and>
         extract_pay_result resp = (True, oid, url) \<and>
         unique_id_of user now hex6 \<notin> dom (orders (fst w)) \<longrightarrow>
           fst (cz gw self user [Finite amt] now hex6 w)
             = Inr (ReplyOrderCreated oid amt url (unique_id_of user now hex6)) \<and>
           orders (fst (snd (cz gw self user [Finite amt] now hex6 w))) (unique_id_of user now hex6)
             = Some \<lparr>user_id = tg_id user, amount = amt, coin = ''USDT'', order_id = oid,
                     pay_url = url, status = 0, credited = 0, created_at = now, paid_at = None\<rparr>)) \<and>
   (snd w < snd (snd (cz gw self user args now hex6 w)) \<longleftrightarrow>
      (\<exists>a. args = [Finite a] \<and> 3 \<le> dec_val a \<and> dec_val a \<le> 10000))"
proof -
  have lo: "dec_less a (dec_of_nat 3) \<longleftrightarrow> dec_val a < 3" for a
    by (simp add: dec_less_iff dec_val_of_nat)
  have hi: "dec_less (dec_of_nat 10000) a \<longleftrightarrow> 10000 < dec_val a" for a
    by (simp add: dec_less_iff dec_val_of_nat)
  have 1: "dec_val amt < 3 \<longrightarrow>
      cz gw self user [Finite amt] now hex6 w
        = (Inr ReplyTooLow, (ensure_user user now (fst w), snd w))"
    by (simp add: cz_too_low lo)
  have 2: "10000 < dec_val amt \<longrightarrow>
      cz gw self user [Finite amt] now hex6 w
        = (Inr ReplyTooHigh, (ensure_user user now (fst w), snd w))"
    using cz_too_high [of amt gw self user now hex6 w] by (simp add: lo hi)
  have 3: "3 \<le> dec_val amt \<and> dec_val amt \<le> 10000 \<longrightarrow>
      snd w < snd (snd (cz gw self user [Finite amt] now hex6 w))"
    using cz_requests_iff [of w gw self user "[Finite amt]" now hex6] by (simp add: lo hi not_less)
  have 4: "3 \<le> dec_val amt \<and> dec_val amt \<le> 10000 \<longrightarrow>
      (\<forall>resp n' oid url.
         cz_pay_link gw self user amt now hex6 (snd w) = (Inr resp, n') \<and>
         extract_pay_result resp = (True, oid, url) \<and>
         unique_id_of user now hex6 \<notin> dom (orders (fst w)) \<longrightarrow>
           fst (cz gw self user [Finite amt] now hex6 w)
             = Inr (ReplyOrderCreated oid amt url (unique_id_of user now hex6)) \<and>
           orders (fst (snd (cz gw self user [Finite amt] now hex6 w))) (unique_id_of user now hex6)
             = Some \<lparr>user_id = tg_id user, amount = amt, coin = ''USDT'', order_id = oid,
                     pay_url = url, status = 0, credited = 0, created_at = now, paid_at = None\<rparr>)"
    using cz_created [of amt gw self user now hex6 w] by (simp add: lo hi not_less)
  have 5: "snd w < snd (snd (cz gw self user args now hex6 w)) \<longleftrightarrow>
      (\<exists>a. args = [Finite a] \<and> 3 \<le> dec_val a \<and> dec_val a \<le> 10000)"
    by (simp add: cz_requests_iff lo hi not_less)
  from 1 2 3 4 5 show ?thesis by blast
qed

lemma post_gw_const_accepts:
  "\<not> is_auth_failed r \<Longrightarrow> post (gw_const (Responds r)) self endpoint data n = (Inr r, n + 1)"
  by (simp add: post_def strategies_def gw_const_def)

lemma created_response_facts:
  "\<not> is_auth_failed created_response"
  "extract_pay_result created_response = (True, ''G1'', ''https://pay/1'')"
  by (simp_all add: is_auth_failed_def extract_pay_result_def created_response_def
      auth_failed_marker_def auth_marker_def py_eval)

theorem cz_amount_bounds_witness:
  "cz (gw_const (Responds created_response)) example_client example_user
      [Finite (Decimal False 299 (- 2))] 100 ''abcdef'' (init_db, 0)
     = (Inr ReplyTooLow, (ensure_user example_user 100 init_db, 0)) \<and>
   cz (gw_const (Responds created_response)) example_client example_user
      [Finite (Decimal False 1000001 (- 2))] 100 ''abcdef'' (init_db, 0)
     = (Inr ReplyTooHigh, (ensure_user example_user 100 init_db, 0)) \<and>
   fst (cz (gw_const (Responds created_response)) example_client example_user
      [Finite (Decimal False 3 0)] 100 ''abcdef'' (init_db, 0))
     = Inr (ReplyOrderCreated ''G1'' (Decimal False 3 0) ''https://pay/1'' ''cz_7_100_abcdef'') \<and>
   fst (cz (gw_const (Responds created_response)) example_client example_user
      [Finite (Decimal False 10000 0)] 100 ''abcdef'' (init_db, 0))
     = Inr (ReplyOrderCreated ''G1'' (Decimal False 10000 0) ''https://pay/1'' ''cz_7_100_abcdef'')"
proof -
  let ?gw = "gw_const (Responds created_response)"
  have v: "dec_val (Decimal False 299 (- 2)) < 3" "10000 < dec_val (Decimal False 1000001 (- 2))"
    "3 \<le> dec_val (Decimal False 3 0) \<and> dec_val (Decimal False 3 0) \<le> 10000"
    "3 \<le> dec_val (Decimal False 10000 0) \<and> dec_val (Decimal False 10000 0) \<le> 10000"
    by (simp_all add: dec_val_eval)
  have pl: "cz_pay_link ?gw example_client example_user a 100 ''abcdef'' (snd (init_db, 0::nat))
      = (Inr created_response, 1)" for a
    by (simp add: cz_pay_link_def pay_link_def post_gw_const_accepts created_response_facts)
  have k: "unique_id_of example_user 100 ''abcdef'' = ''cz_7_100_abcdef''"
    by (simp add: unique_id_of_def example_user_def str_int_def str_nat.simps digit_char_def)
  have fresh: "unique_id_of example_user 100 ''abcdef'' \<notin> dom (orders (fst (init_db, 0::nat)))"
    by (simp add: init_db_def)
  note t = cz_amount_bounds [of _ ?gw example_client example_user 100 "''abcdef''" "(init_db, 0)" "[]"]
  from t [of "Decimal False 299 (- 2)"] v(1)
  have 1: "cz ?gw example_client example_user [Finite (Decimal False 299 (- 2))] 100 ''abcdef''
      (init_db, 0) = (Inr ReplyTooLow, (ensure_user example_user 100 (fst (init_db, 0::nat)),
        snd (init_db, 0::nat)))"
    by blast
  from t [of "Decimal False 1000001 (- 2)"] v(2)
  have 2: "cz ?gw example_client example_user [Finite (Decimal False 1000001 (- 2))] 100 ''abcdef''
      (init_db, 0) = (Inr ReplyTooHigh, (ensure_user example_user 100 (fst (init_db, 0::nat)),
        snd (init_db, 0::nat)))"
    by blast
  from t [of "Decimal False 3 0"] v(3) pl [of "Decimal False 3 0"] created_response_facts(2) fresh
  have 3: "fst (cz ?gw example_client example_user [Finite (Decimal False 3 0)] 100 ''abcdef''
      (init_db, 0)) = Inr (ReplyOrderCreated ''G1'' (Decimal False 3 0) ''https://pay/1''
        (unique_id_of example_user 100 ''abcdef''))"
    by blast
  from t [of "Decimal False 10000 0"] v(4) pl [of "Decimal False 10000 0"]
    created_response_facts(2) fresh
  have 4: "fst (cz ?gw example_client example_user [Finite (Decimal False 10000 0)] 100 ''abcdef''
      (init_db, 0)) = Inr (ReplyOrderCreated ''G1'' (Decimal False 10000 0) ''https://pay/1''
        (unique_id_of example_user 100 ''abcdef''))"
    by blast
  from 1 2 3 4 show ?thesis by (simp add: k)
qed

subsection \<open>Invariants of the reachable states\<close>

lemma mark_cases:
  "snd (mark_order_paid_and_credit k now d) = d \<or>
   (\<exists>row p. orders d k = Some row \<and> credited row \<noteq> 1 \<and>
      snd (mark_order_paid_and_credit k now d) =
        update_points (user_id row) p
          (d\<lparr>orders := (orders d)(k \<mapsto> row\<lparr>status := 1, credited := 1, paid_at := Some now\<rparr>)\<rparr>))"
  by (cases "orders d k") (auto simp: mark_order_paid_and_credit_def Let_def)

lemma orders_update_points: "orders (update_points uid p d) = orders d"
  by (cases "users d uid") (simp_all add: update_points_def)



lemma credited_implies_paid_ensure_user:
  "credited_implies_paid d \<Longrightarrow> credited_implies_paid (ensure_user user now d)"
  by (simp add: credited_implies_paid_def orders_ensure_user)

lemma credited_implies_paid_deduct:
  "credited_implies_paid d \<Longrightarrow> credited_implies_paid (snd (deduct_points_if_enough uid amt d))"
  by (simp add: credited_implies_paid_def deduct_snd orders_update_points)

lemma credited_implies_paid_create:
  "credited_implies_paid d \<Longrightarrow> create_order k uid amt oid url now d = Inr d' \<Longrightarrow>
   credited_implies_paid d'"
  by (auto simp: credited_implies_paid_def create_order_def split: if_splits)

lemma credited_implies_paid_update_points:
  "credited_implies_paid d \<Longrightarrow> credited_implies_paid (update_points uid p d)"
  by (simp add: credited_implies_paid_def orders_update_points)

lemma credited_implies_paid_set_paid:
  "credited_implies_paid d \<Longrightarrow>
   credited_implies_paid
     (d\<lparr>orders := (orders d)(k \<mapsto> row\<lparr>status := 1, credited := 1, paid_at := t\<rparr>)\<rparr>)"
  by (simp add: credited_implies_paid_def)

lemma credited_implies_paid_mark:
  assumes "credited_implies_paid d"
  shows "credited_implies_paid (snd (mark_order_paid_and_credit k now d))"
  using mark_cases [of k now d]
proof (elim disjE exE conjE)
  assume "snd (mark_order_paid_and_credit k now d) = d"
  with assms show ?thesis by simp
next
  fix row p
  assume "snd (mark_order_paid_and_credit k now d) =
        update_points (user_id row) p
          (d\<lparr>orders := (orders d)(k \<mapsto> row\<lparr>status := 1, credited := 1, paid_at := Some now\<rparr>)\<rparr>)"
  with assms show ?thesis
    by (simp only: credited_implies_paid_update_points credited_implies_paid_set_paid)
qed







text \<open>The database after \<^verbatim>\<open>cz\<close>: what \<^verbatim>\<open>ensure_user\<close> left, or that with one order inserted.\<close>

lemma cz_db:
  "fst (snd (cz gw self user args now hex6 w)) = ensure_user user now (fst w) \<or>
   (\<exists>k amt oid url.
      create_order k (tg_id user) amt oid url now (ensure_user user now (fst w))
        = Inr (fst (snd (cz gw self user args now hex6 w))))"
proof (cases "length args = 1")
  case False
  then show ?thesis by (simp add: cz_not_single)
next
  case True
  then obtain a where args: "args = [a]" by (cases args) auto
  show ?thesis
  proof (cases a)
    case (Finite amt)
    show ?thesis
    proof (cases "dec_less amt (dec_of_nat 3) \<or> dec_less (dec_of_nat 10000) amt")
      case True
      then show ?thesis
        by (cases "dec_less amt (dec_of_nat 3)") (simp_all add: args Finite cz_too_low cz_too_high)
    next
      case False
      then have r: "\<not> dec_less amt (dec_of_nat 3)" "\<not> dec_less (dec_of_nat 10000) amt" by simp_all
      show ?thesis
        unfolding args Finite cz_in_range [OF r]
        by (auto simp: Let_def split: prod.splits sum.splits)
    qed
  qed (simp_all add: args cz_single_other)
qed

lemma check_payment_db:
  "fst (snd (handle_check_payment gw self from_user k now w)) = fst w \<or>
   fst (snd (handle_check_payment gw self from_user k now w))
     = snd (mark_order_paid_and_credit k now (fst w))"
  by (auto simp: handle_check_payment_def Let_def split: option.splits prod.splits sum.splits)

lemma paid_command_db:
  "fst (snd (paid_command user msg c now w)) = ensure_user user now (fst w) \<or>
   fst (snd (paid_command user msg c now w))
     = snd (deduct_points_if_enough (tg_id user) (COST c) (ensure_user user now (fst w)))"
  by (auto simp: paid_command_def Let_def split: prod.splits)

lemma handle_credited_implies_paid:
  assumes "credited_implies_paid (fst w)"
  shows "credited_implies_paid (fst (snd (handle gw self ev w)))"
proof (cases ev)
  case (Start user now)
  with assms show ?thesis by (simp add: start_def credited_implies_paid_ensure_user)
next
  case (Info user now)
  with assms show ?thesis by (simp add: info_def Let_def credited_implies_paid_ensure_user)
next
  case (Paid user msg c now)
  with assms paid_command_db [of user msg c now w] show ?thesis
    by (auto simp: credited_implies_paid_ensure_user credited_implies_paid_deduct)
next
  case (Cz user args now hex6)
  with assms cz_db [of gw self user args now hex6 w] show ?thesis
    by (auto simp: credited_implies_paid_ensure_user
        intro: credited_implies_paid_create [OF credited_implies_paid_ensure_user])
next
  case (CheckPay from_user k now)
  with assms check_payment_db [of gw self from_user k now w] show ?thesis
    by (auto simp: credited_implies_paid_mark)
qed


lemma init_db_invariants: "credited_implies_paid init_db" "owners_exist init_db"
  by (simp_all add: credited_implies_paid_def owners_exist_def init_db_def)

lemma reachable_credited_implies_paid: "reachable gw self w \<Longrightarrow> credited_implies_paid (fst w)"
proof (induction rule: reachable.induct)
  case reachable_init
  show ?case by (simp add: init_db_invariants)
next
  case (reachable_step w ev)
  then show ?case by (simp add: handle_credited_implies_paid)
qed


lemma paid_response_facts: "\<not> is_auth_failed paid_response" "extract_paid_status paid_response"
  by (simp_all add: is_auth_failed_def extract_paid_status_def paid_response_def
      auth_failed_marker_def auth_marker_def py_eval)

lemma post_gw_demo:
  "post gw_demo self endpoint data 0 = (Inr created_response, 1)"
  "post gw_demo self endpoint data 1 = (Inr paid_response, 2)"
  by (simp_all add: post_def strategies_def gw_demo_def created_response_facts paid_response_facts)

lemma demo_w1_eq:
  "demo_w1 = (\<lparr>users = [7 \<mapsto> demo_user_row], orders = [''cz_7_100_abcdef'' \<mapsto> demo_order]\<rparr>, 1)"
proof -
  have pl: "cz_pay_link gw_demo example_client example_user (Decimal False 5 0) 100 ''abcdef'' 0
      = (Inr created_response, 1)"
    by (simp add: cz_pay_link_def pay_link_def post_gw_demo)
  have k: "unique_id_of example_user 100 ''abcdef'' = ''cz_7_100_abcdef''"
    by (simp add: unique_id_of_def example_user_def str_int_def str_nat.simps digit_char_def)
  have eu: "ensure_user example_user 100 init_db = \<lparr>users = [7 \<mapsto> demo_user_row], orders = Map.empty\<rparr>"
    by (simp add: ensure_user_def init_db_def example_user_def demo_user_row_def dec_of_nat_def)
  have tg: "tg_id example_user = 7" by (simp add: example_user_def)
  show ?thesis
    by (simp add: demo_w1_def cz_in_range [OF five_in_range] pl k eu tg Let_def
        created_response_facts create_order_def demo_order_def)
qed

lemma demo_w2_eq:
  "demo_w2 = (\<lparr>users = [7 \<mapsto> demo_user_row\<lparr>points := Decimal False 5 0\<rparr>],
               orders = [''cz_7_100_abcdef'' \<mapsto>
                 demo_order\<lparr>status := 1, credited := 1, paid_at := Some 200\<rparr>]\<rparr>, 2)"
proof -
  have cd: "check_deposit gw_demo example_client ''cz_7_100_abcdef'' (Suc 0) = (Inr paid_response, 2)"
    using post_gw_demo(2) [of example_client "''checkDeposit''"] by (simp add: check_deposit_def)
  have add: "dec_add (Decimal False 0 0) (Decimal False 5 0) = Decimal False 5 0"
    by (simp add: dec_eval)
  show ?thesis
    by (simp add: demo_w2_def demo_w1_eq handle_check_payment_def get_order_def cd
        paid_response_facts mark_order_paid_and_credit_def update_points_def Let_def
        demo_order_def demo_user_row_def dec_of_nat_def add)
qed

lemma demo_reachable: "reachable gw_demo example_client demo_w1" "reachable gw_demo example_client demo_w2"
proof -
  show 1: "reachable gw_demo example_client demo_w1"
    unfolding demo_w1_def by (rule reachable_step [OF reachable_init])
  show "reachable gw_demo example_client demo_w2"
    unfolding demo_w2_def by (rule reachable_step [OF 1])
qed

text \<open>
  \<^bold>\<open>C9.\<close>  In every state the bot can reach, with any gateway and any client, an order
  whose \<^verbatim>\<open>credited\<close> is 1 has \<^verbatim>\<open>status\<close> 1: \<^verbatim>\<open>create_order\<close> inserts status 0 and
  credited 0, and the one \<^verbatim>\<open>UPDATE\<close> that sets \<^verbatim>\<open>credited\<close> sets \<^verbatim>\<open>status\<close> with it.
\<close>

theorem credited_implies_paid_invariant:
  assumes "reachable gw self w" and "orders (fst w) k = Some row" and "credited row = 1"
  shows "status row = 1"
  using reachable_credited_implies_paid [OF assms(1)] assms(2,3)
  by (simp add: credited_implies_paid_def)

theorem credited_implies_paid_invariant_witness:
  "orders (fst demo_w2) ''cz_7_100_abcdef''
     = Some (demo_order\<lparr>status := 1, credited := 1, paid_at := Some 200\<rparr>) \<and>
   credited (demo_order\<lparr>status := 1, credited := 1, paid_at := Some 200\<rparr>) = 1 \<and>
   status (demo_order\<lparr>status := 1, credited := 1, paid_at := Some 200\<rparr>) = 1"
proof -
  have o: "orders (fst demo_w2) ''cz_7_100_abcdef''
     = Some (demo_order\<lparr>status := 1, credited := 1, paid_at := Some 200\<rparr>)"
    by (simp add: demo_w2_eq)
  have c: "credited (demo_order\<lparr>status := 1, credited := 1, paid_at := Some 200\<rparr>) = 1"
    by simp
  from credited_implies_paid_invariant [OF demo_reachable(2) o c] o c
  show ?thesis by blast
qed

subsection \<open>Crediting once\<close>







subsection \<open>The signer\<close>










end
